theory Spec2Isabelle
  imports Complex_Main "HOL-Library.Char_ord" "HOL-Library.List_Lexorder"
begin

section \<open>Values, errors and the correctness map\<close>

text \<open>
  The grading code of \<^verbatim>\<open>common/lib/capa/capa/responsetypes.py\<close> works on Python
  values. Numbers returned by the formula evaluator are Python floats or complex
  numbers, which may be infinite or NaN; the finite ones are embedded as complex numbers.
\<close>

datatype pynum = Fin complex | Inf | NaN

fun isnan :: "pynum \<Rightarrow> bool" where
  "isnan NaN = True"
| "isnan _ = False"

fun isinf :: "pynum \<Rightarrow> bool" where
  "isinf Inf = True"
| "isinf _ = False"

text \<open>
  Python values as they reach the graders: student answers are strings or lists of
  strings taken from the request, a checker function may return anything (a tuple, for
  one). \<open>PyObj\<close> stands for an opaque object (an XML tree, a function).
\<close>

datatype pyval =
    PyNone
  | PyBool bool
  | PyNum pynum
  | PyStr string
  | PyList "pyval list"
  | PyTuple "pyval list"
  | PyDict "(string \<times> pyval) list"
  | PyObj nat

text \<open>Python truthiness, as used by \<^verbatim>\<open>if ret\<close> and \<^verbatim>\<open>not submission[0]\<close>.\<close>

fun truthy :: "pyval \<Rightarrow> bool" where
  "truthy PyNone = False"
| "truthy (PyBool b) = b"
| "truthy (PyNum n) = (n \<noteq> Fin 0)"
| "truthy (PyStr s) = (s \<noteq> [])"
| "truthy (PyList xs) = (xs \<noteq> [])"
| "truthy (PyTuple xs) = (xs \<noteq> [])"
| "truthy (PyDict kvs) = (kvs \<noteq> [])"
| "truthy (PyObj _) = True"

text \<open>
  The exceptions of the module (\<^verbatim>\<open>LoncapaProblemError\<close>, \<^verbatim>\<open>ResponseError\<close>,
  \<^verbatim>\<open>StudentInputError\<close>), the evaluator's \<^verbatim>\<open>UndefinedVariable\<close>, the built-in
  exceptions the code can run into, and the plain \<^verbatim>\<open>Exception\<close> it raises itself.
\<close>

datatype error =
    LoncapaProblemError string
  | ResponseError string
  | StudentInputError string
  | UndefinedVariable string
  | KeyError
  | IndexError
  | TypeError
  | AttributeError
  | ValueError
  | NameError
  | Exception string

text \<open>A submitted-answers dict: request keys to values.\<close>

type_synonym answers = "(string \<times> pyval) list"

text \<open>
  Modelled from the spec: the class \<^verbatim>\<open>CorrectMap\<close> (module \<^verbatim>\<open>correctmap\<close>) is not part
  of the sources at hand. The spec describes it as a mapping from answer id to a record
  of correctness, partial credit, message, hint and hint display mode, every part but
  the correctness optional. \<open>cm_set\<close> is \<^verbatim>\<open>CorrectMap.set(answer_id, correctness, msg=msg)\<close>,
  which stores a fresh record, \<open>CorrectMap\<close> the constructor called with an answer id,
  and \<open>set_hint_and_mode\<close> attaches a hint text and a display mode to an answer id,
  leaving the rest of its record as it is.
\<close>

record cm_entry =
  correctness :: "string option"
  npoints :: "real option"
  msg :: "string option"
  hint :: "string option"
  hintmode :: "string option"

type_synonym correct_map = "string \<rightharpoonup> cm_entry"

definition empty_entry :: cm_entry where
  "empty_entry = \<lparr>correctness = None, npoints = None, msg = None, hint = None, hintmode = None\<rparr>"

definition cm_set :: "correct_map \<Rightarrow> string \<Rightarrow> string \<Rightarrow> string option \<Rightarrow> correct_map" where
  "cm_set cm aid c m = cm(aid \<mapsto> empty_entry\<lparr>correctness := Some c, msg := m\<rparr>)"

definition CorrectMap :: "string \<Rightarrow> string \<Rightarrow> string option \<Rightarrow> correct_map" where
  "CorrectMap aid c m = cm_set Map.empty aid c m"

definition set_hint_and_mode ::
  "correct_map \<Rightarrow> string \<Rightarrow> string option \<Rightarrow> string \<Rightarrow> correct_map" where
  "set_hint_and_mode cm aid h mode =
     cm(aid \<mapsto> (case cm aid of None \<Rightarrow> empty_entry | Some e \<Rightarrow> e)
                 \<lparr>hint := h, hintmode := Some mode\<rparr>)"

text \<open>The verdict a correctness map holds for an answer id.\<close>

definition verdict :: "correct_map \<Rightarrow> string \<Rightarrow> string option" where
  "verdict cm aid = (case cm aid of None \<Rightarrow> None | Some e \<Rightarrow> correctness e)"

section \<open>Multiple choice and true/false\<close>

text \<open>
  \<^verbatim>\<open>MultipleChoiceResponse\<close> has one input field (\<^verbatim>\<open>max_inputfields = 1\<close>), whose id is
  \<^verbatim>\<open>self.answer_id\<close>; \<^verbatim>\<open>setup_response\<close> collects the names of the choices marked
  correct in \<^verbatim>\<open>self.correct_choices\<close>.
\<close>

record choice_response =
  answer_id :: string
  correct_choices :: "string list"

text \<open>
  \<^verbatim>\<open>x in self.correct_choices\<close> compares with \<^verbatim>\<open>==\<close>; a value equals a choice name
  only when it is that string.
\<close>

definition in_choices :: "pyval \<Rightarrow> string list \<Rightarrow> bool" where
  "in_choices v cs = (case v of PyStr s \<Rightarrow> s \<in> set cs | _ \<Rightarrow> False)"

definition MultipleChoiceResponse_get_score ::
  "choice_response \<Rightarrow> answers \<Rightarrow> error + correct_map" where
  "MultipleChoiceResponse_get_score r student_answers =
     (case map_of student_answers (answer_id r) of
        None \<Rightarrow> Inr (CorrectMap (answer_id r) ''incorrect'' None)
      | Some v \<Rightarrow>
          if in_choices v (correct_choices r)
          then Inr (CorrectMap (answer_id r) ''correct'' None)
          else Inr (CorrectMap (answer_id r) ''incorrect'' None))"

text \<open>
  \<^verbatim>\<open>set(x)\<close>: the elements of a list or of a tuple (all of them must be hashable),
  the characters of a string, the keys of a dict; anything else is not iterable. A
  tuple is hashable when its elements are.
\<close>

fun hashable :: "pyval \<Rightarrow> bool" where
  "hashable (PyList _) = False"
| "hashable (PyDict _) = False"
| "hashable (PyTuple xs) = (\<forall>x\<in>set xs. hashable x)"
| "hashable _ = True"

fun py_set :: "pyval \<Rightarrow> error + pyval set" where
  "py_set (PyList xs) = (if list_all hashable xs then Inr (set xs) else Inl TypeError)"
| "py_set (PyTuple xs) = (if list_all hashable xs then Inr (set xs) else Inl TypeError)"
| "py_set (PyStr s) = Inr ((\<lambda>c. PyStr [c]) ` set s)"
| "py_set (PyDict kvs) = Inr ((\<lambda>kv. PyStr (fst kv)) ` set kvs)"
| "py_set _ = Inl TypeError"

text \<open>
  \<^verbatim>\<open>TrueFalseResponse.get_score\<close>: the set of the correct choices against the set of
  \<^verbatim>\<open>student_answers.get(self.answer_id, [])\<close>.
\<close>

definition TrueFalseResponse_get_score ::
  "choice_response \<Rightarrow> answers \<Rightarrow> error + correct_map" where
  "TrueFalseResponse_get_score r student_answers =
     (let correct = PyStr ` set (correct_choices r) in
      case py_set (case map_of student_answers (answer_id r) of
                     None \<Rightarrow> PyList [] | Some v \<Rightarrow> v) of
        Inl e \<Rightarrow> Inl e
      | Inr answers \<Rightarrow>
          if correct = answers
          then Inr (CorrectMap (answer_id r) ''correct'' None)
          else Inr (CorrectMap (answer_id r) ''incorrect'' None))"

section \<open>Tolerance comparison\<close>

text \<open>
  Modelled from the spec: \<^verbatim>\<open>compare_with_tolerance\<close> (module \<^verbatim>\<open>util\<close>, the spec's
  \<^verbatim>\<open>within_tolerance\<close>) is not part of the sources at hand. The spec: the tolerance is
  an absolute numeric bound or, when suffixed as a percentage,
  \<^verbatim>\<open>bound = tolerance% * |expected|\<close>; the comparison is on the complex magnitude of
  the difference, \<^verbatim>\<open>|given - expected| <= bound\<close>. The callers pass the student's value
  first and the expected value second.
\<close>

datatype tolerance = Absolute real | Percent real

fun tolerance_bound :: "tolerance \<Rightarrow> complex \<Rightarrow> real" where
  "tolerance_bound (Absolute t) expected = t"
| "tolerance_bound (Percent p) expected = p / 100 * cmod expected"

definition compare_with_tolerance :: "complex \<Rightarrow> complex \<Rightarrow> tolerance \<Rightarrow> bool" where
  "compare_with_tolerance given expected tol =
     (cmod (given - expected) \<le> tolerance_bound tol expected)"

section \<open>Image regions\<close>

text \<open>
  \<^verbatim>\<open>s.strip().replace(' ','')\<close>: leading and trailing whitespace goes, then every
  space.
\<close>

definition isspace :: "char \<Rightarrow> bool" where
  "isspace c = (c \<in> set [CHR '' '', CHR 0x09, CHR 0x0A, CHR 0x0B, CHR 0x0C, CHR 0x0D])"

definition strip :: "string \<Rightarrow> string" where
  "strip s = rev (dropWhile isspace (rev (dropWhile isspace s)))"

definition strip_spaces :: "string \<Rightarrow> string" where
  "strip_spaces s = filter (\<lambda>c. c \<noteq> CHR '' '') (strip s)"

text \<open>The character class \<^verbatim>\<open>[0-9]\<close> and \<^verbatim>\<open>int\<close> on a string of digits.\<close>

definition isdigit :: "char \<Rightarrow> bool" where
  "isdigit c = (CHR ''0'' \<le> c \<and> c \<le> CHR ''9'')"

definition int_of_digits :: "string \<Rightarrow> nat" where
  "int_of_digits ds = foldl (\<lambda>n c. 10 * n + (of_char c - of_char CHR ''0'')) 0 ds"

text \<open>
  \<^verbatim>\<open>([0-9]+)\<close> at the head of a string: the longest run of digits, which must not be
  empty (what follows the group in both patterns is not a digit, so the greedy match is
  the only one). The result is the group and the rest of the string.
\<close>

definition match_digits :: "string \<Rightarrow> (string \<times> string) option" where
  "match_digits s =
     (if takeWhile isdigit s = [] then None
      else Some (takeWhile isdigit s, dropWhile isdigit s))"

text \<open>One literal character out of a set, at the head of a string.\<close>

definition match_char :: "char list \<Rightarrow> string \<Rightarrow> string option" where
  "match_char cs s = (case s of [] \<Rightarrow> None | c # rest \<Rightarrow> if c \<in> set cs then Some rest else None)"

text \<open>
  \<^verbatim>\<open>[\(\[]([0-9]+),([0-9]+)[\)\]]\<close>: a bracketed pair of numbers, with the brackets
  the caller allows. \<^verbatim>\<open>re.match\<close> anchors at the start only, so the rest is returned.
\<close>

definition match_pair :: "char list \<Rightarrow> char list \<Rightarrow> string \<Rightarrow> ((nat \<times> nat) \<times> string) option" where
  "match_pair opens closes s =
     (case match_char opens s of None \<Rightarrow> None | Some s1 \<Rightarrow>
      case match_digits s1 of None \<Rightarrow> None | Some (x, s2) \<Rightarrow>
      case match_char [CHR '',''] s2 of None \<Rightarrow> None | Some s3 \<Rightarrow>
      case match_digits s3 of None \<Rightarrow> None | Some (y, s4) \<Rightarrow>
      case match_char closes s4 of None \<Rightarrow> None | Some s5 \<Rightarrow>
        Some ((int_of_digits x, int_of_digits y), s5))"

text \<open>The rectangle pattern and the \<^verbatim>\<open>int\<close> of its four groups.\<close>

definition match_rectangle :: "string \<Rightarrow> (nat \<times> nat \<times> nat \<times> nat) option" where
  "match_rectangle s =
     (case match_pair [CHR ''('', CHR ''[''] [CHR '')'', CHR '']''] s of None \<Rightarrow> None
      | Some ((llx, lly), s1) \<Rightarrow>
      case match_char [CHR ''-''] s1 of None \<Rightarrow> None | Some s2 \<Rightarrow>
      case match_pair [CHR ''('', CHR ''[''] [CHR '')'', CHR '']''] s2 of None \<Rightarrow> None
      | Some ((urx, ury), s3) \<Rightarrow> Some (llx, lly, urx, ury))"

text \<open>The pattern \<^verbatim>\<open>\[([0-9]+),([0-9]+)]\<close> of a submitted point.\<close>

definition match_point :: "string \<Rightarrow> (nat \<times> nat) option" where
  "match_point s =
     (case match_pair [CHR ''[''] [CHR '']''] s of None \<Rightarrow> None
      | Some (p, rest) \<Rightarrow> Some p)"

text \<open>
  An \<^verbatim>\<open>imageinput\<close> element with its \<^verbatim>\<open>id\<close> and its \<^verbatim>\<open>rectangle\<close> attribute,
  which may be missing.
\<close>

record imageinput =
  ie_id :: string
  ie_rectangle :: "string option"

record image_response =
  ielements :: "imageinput list"

definition image_answer_ids :: "image_response \<Rightarrow> string list" where
  "image_answer_ids r = map ie_id (ielements r)"

text \<open>\<^verbatim>\<open>get_answers\<close> builds a dict, in which a later pair replaces an earlier one.\<close>

definition ImageResponse_get_answers :: "image_response \<Rightarrow> string \<rightharpoonup> string option" where
  "ImageResponse_get_answers r = map_of (rev (map (\<lambda>ie. (ie_id ie, ie_rectangle ie)) (ielements r)))"

text \<open>
  The body of the loop of \<^verbatim>\<open>get_score\<close> for one answer id. A missing answer is a
  \<^verbatim>\<open>KeyError\<close>; a rectangle or an answer that is not a string has no \<^verbatim>\<open>strip\<close>; a
  rectangle that does not match ends in a \<^verbatim>\<open>TypeError\<close>, since the message of the
  intended exception indexes the list \<^verbatim>\<open>self.ielements\<close> with the answer id.
\<close>

definition image_grade ::
  "(string \<rightharpoonup> string option) \<Rightarrow> answers \<Rightarrow> string \<Rightarrow> error + string" where
  "image_grade expectedset student_answers aid =
     (case map_of student_answers aid of None \<Rightarrow> Inl KeyError | Some given \<Rightarrow>
      case expectedset aid of None \<Rightarrow> Inl KeyError | Some None \<Rightarrow> Inl AttributeError
      | Some (Some rect) \<Rightarrow>
      case match_rectangle (strip_spaces rect) of None \<Rightarrow> Inl TypeError
      | Some (llx, lly, urx, ury) \<Rightarrow>
      case given of
        PyStr g \<Rightarrow>
          (case match_point (strip_spaces g) of
             None \<Rightarrow> Inl (Exception ''[capamodule.capa.responsetypes.imageinput] error grading'')
           | Some (gx, gy) \<Rightarrow>
               if (llx \<le> gx \<and> gx \<le> urx) \<and> (lly \<le> gy \<and> gy \<le> ury)
               then Inr ''correct'' else Inr ''incorrect'')
      | _ \<Rightarrow> Inl AttributeError)"

fun image_loop ::
  "(string \<rightharpoonup> string option) \<Rightarrow> answers \<Rightarrow> string list \<Rightarrow> correct_map \<Rightarrow> error + correct_map" where
  "image_loop expectedset student_answers [] correct_map = Inr correct_map"
| "image_loop expectedset student_answers (aid # aids) correct_map =
     (case image_grade expectedset student_answers aid of
        Inl e \<Rightarrow> Inl e
      | Inr c \<Rightarrow> image_loop expectedset student_answers aids (cm_set correct_map aid c None))"

definition ImageResponse_get_score :: "image_response \<Rightarrow> answers \<Rightarrow> error + correct_map" where
  "ImageResponse_get_score r student_answers =
     image_loop (ImageResponse_get_answers r) student_answers (image_answer_ids r) Map.empty"

section \<open>Strings and lists of Python\<close>

text \<open>
  \<^verbatim>\<open>s.replace(old, new)\<close>: the occurrences of \<open>old\<close> are replaced from left to right
  without overlap; an empty \<open>old\<close> matches before every character and at the end.
\<close>

function replace :: "string \<Rightarrow> string \<Rightarrow> string \<Rightarrow> string" where
  "replace old new s =
     (if old = [] then new @ concat (map (\<lambda>c. c # new) s)
      else if s = [] then []
      else if take (length old) s = old then new @ replace old new (drop (length old) s)
      else hd s # replace old new (tl s))"
  by pat_completeness auto
termination
  by (relation "measure (\<lambda>(old, new, s). length s)") auto

declare replace.simps [simp del]

text \<open>\<^verbatim>\<open>xs.index(x)\<close> for an \<open>x\<close> that occurs in \<open>xs\<close>: its first position.\<close>

definition index :: "'a list \<Rightarrow> 'a \<Rightarrow> nat" where
  "index xs x = length (takeWhile (\<lambda>y. y \<noteq> x) xs)"

text \<open>The script context of a problem: the names the author's scripts see.\<close>

type_synonym script_context = "string \<rightharpoonup> pyval"

section \<open>Externally graded code\<close>

text \<open>
  The XML a grader answers with, as far as the code reads it: \<^verbatim>\<open>rxml.find(tag)\<close> is
  \<open>None\<close> when there is no such element, and the \<^verbatim>\<open>text\<close> of an element that is
  there is \<open>None\<close> when the element is empty.
\<close>

record score_xml =
  awarddetail :: "string option option"
  message :: "string option option"

text \<open>
  \<^verbatim>\<open>admap\<close>, and what \<^verbatim>\<open>self.context['correct']\<close> holds after
  \<^verbatim>\<open>self.context['correct'] = ['correct']\<close> and the conditional assignment to its first
  element.
\<close>

definition admap :: "string \<rightharpoonup> string" where
  "admap = [''EXACT_ANS'' \<mapsto> ''correct'', ''WRONG_FORMAT'' \<mapsto> ''incorrect'']"

definition award_correct :: "string option \<Rightarrow> string list" where
  "award_correct ad =
     (case ad of None \<Rightarrow> [''correct'']
      | Some a \<Rightarrow> (case admap a of None \<Rightarrow> [''correct''] | Some c \<Rightarrow> [c]))"

text \<open>
  The loop that creates the \<^verbatim>\<open>CorrectMap\<close>, the same in \<^verbatim>\<open>CodeResponse.update_score\<close>
  and in \<^verbatim>\<open>ExternalResponse.get_score\<close>. The message is read for the first id only;
  the verdict is \<^verbatim>\<open>self.context['correct'][idx]\<close>, an \<^verbatim>\<open>IndexError\<close> when the list is
  too short.
\<close>

fun score_loop ::
  "string list \<Rightarrow> string list \<Rightarrow> score_xml \<Rightarrow> string list \<Rightarrow> correct_map \<Rightarrow> error + correct_map" where
  "score_loop idset correct rxml [] cmap = Inr cmap"
| "score_loop idset correct rxml (key # keys) cmap =
     (let idx = index idset key in
      case (if idx = 0
            then (case message rxml of
                    None \<Rightarrow> Inl AttributeError
                  | Some None \<Rightarrow> Inl AttributeError
                  | Some (Some t) \<Rightarrow> Inr (Some (replace ''&nbsp;'' ''&#160;'' t)))
            else Inr None) of
        Inl e \<Rightarrow> Inl e
      | Inr m \<Rightarrow>
          if idx < length correct
          then score_loop idset correct rxml keys (cm_set cmap key (correct ! idx) m)
          else Inl IndexError)"

text \<open>
  From \<^verbatim>\<open>ad = rxml.find('awarddetail').text\<close> to the end, with the context updated
  as the code does.
\<close>

definition score_from_xml ::
  "string list \<Rightarrow> script_context \<Rightarrow> score_xml \<Rightarrow> (error + correct_map) \<times> script_context" where
  "score_from_xml idset ctx rxml =
     (case awarddetail rxml of
        None \<Rightarrow> (Inl AttributeError, ctx)
      | Some ad \<Rightarrow>
          (let correct = award_correct ad in
           (score_loop idset correct rxml idset Map.empty,
            ctx(''correct'' \<mapsto> PyList (map PyStr correct)))))"

record code_response =
  code_answer_ids :: "string list"

text \<open>
  \<^verbatim>\<open>CodeResponse.update_score\<close>. \<open>fromstring\<close> is \<^verbatim>\<open>etree.fromstring\<close>, whose failure
  is raised again as an \<^verbatim>\<open>Exception\<close>.
\<close>

definition CodeResponse_update_score ::
  "(string \<Rightarrow> error + score_xml) \<Rightarrow> code_response \<Rightarrow> script_context \<Rightarrow> string
     \<Rightarrow> (error + correct_map) \<times> script_context" where
  "CodeResponse_update_score fromstring r ctx score_msg =
     (case fromstring score_msg of
        Inl err \<Rightarrow> (Inl (Exception ''cannot parse response from xworker''), ctx)
      | Inr rxml \<Rightarrow> score_from_xml (sort (code_answer_ids r)) ctx rxml)"

text \<open>
  \<^verbatim>\<open>[student_answers[k] for k in idset]\<close>: a missing key is a \<^verbatim>\<open>KeyError\<close>.
\<close>

fun get_submission :: "answers \<Rightarrow> string list \<Rightarrow> error + pyval list" where
  "get_submission student_answers [] = Inr []"
| "get_submission student_answers (k # ks) =
     (case map_of student_answers k of
        None \<Rightarrow> Inl KeyError
      | Some v \<Rightarrow> (case get_submission student_answers ks of
                     Inl e \<Rightarrow> Inl e | Inr vs \<Rightarrow> Inr (v # vs)))"

text \<open>
  Modelled from the spec: \<^verbatim>\<open>CorrectMap.set_dict\<close> and \<^verbatim>\<open>CorrectMap.set_property\<close>, used
  when the external request fails in debug mode, are not part of the sources at hand.
  The first stores a verdict for each of the keys, the second sets the message of an id.
\<close>

definition set_dict :: "correct_map \<Rightarrow> (string \<times> string) list \<Rightarrow> correct_map" where
  "set_dict cm kvs = foldl (\<lambda>m kv. cm_set m (fst kv) (snd kv) None) cm kvs"

definition set_msg :: "correct_map \<Rightarrow> string \<Rightarrow> string \<Rightarrow> correct_map" where
  "set_msg cm aid m =
     cm(aid \<mapsto> (case cm aid of None \<Rightarrow> empty_entry | Some e \<Rightarrow> e)\<lparr>msg := Some m\<rparr>)"

record external_response =
  ext_answer_ids :: "string list"
  ext_debug :: bool

text \<open>
  \<^verbatim>\<open>ExternalResponse.get_score\<close>. \<open>do_external_request\<close> stands for the request to the
  external server with the submission, which returns the parsed XML or fails with a
  message. When it fails and \<^verbatim>\<open>DEBUG\<close> is off, the code goes on to read \<^verbatim>\<open>rxml\<close>,
  which was never bound.
\<close>

definition ExternalResponse_get_score ::
  "(pyval list \<Rightarrow> string + score_xml) \<Rightarrow> external_response \<Rightarrow> script_context \<Rightarrow> answers
     \<Rightarrow> (error + correct_map) \<times> script_context" where
  \<open>ExternalResponse_get_score do_external_request r ctx student_answers =
     (let idset = sort (ext_answer_ids r) in
      case get_submission student_answers idset of
        Inl err \<Rightarrow> (Inl (Exception ''cannot get student answer''), ctx)
      | Inr submission \<Rightarrow>
          (let ctx1 = ctx(''submission'' \<mapsto> PyList submission) in
           case do_external_request submission of
             Inl err \<Rightarrow>
               if ext_debug r
               then (if ext_answer_ids r = [] then (Inl IndexError, ctx1)
                     else (Inr (set_msg (set_dict Map.empty (map (\<lambda>k. (k, ''incorrect'')) idset))
                                  (hd (ext_answer_ids r))
                                  (''<font color="red" size="+2">''
                                     @ replace ''<'' ''&lt;'' err @ ''</font>'')), ctx1))
               else (Inl NameError, ctx1)
           | Inr rxml \<Rightarrow> score_from_xml idset ctx1 rxml))\<close>

section \<open>Hints\<close>

text \<open>
  The \<^verbatim>\<open>hintgroup\<close> element of a response, as far as \<^verbatim>\<open>get_hints\<close> reads it: its
  attributes \<^verbatim>\<open>hintfn\<close> and \<^verbatim>\<open>mode\<close>, its children that state hint conditions (with
  their tag, and the attributes \<^verbatim>\<open>name\<close>, \<^verbatim>\<open>answer\<close> and \<^verbatim>\<open>samples\<close>), and its
  \<^verbatim>\<open>hintpart\<close> children in document order, each with its attribute \<^verbatim>\<open>on\<close> and its
  \<^verbatim>\<open>text\<close> child (\<open>None\<close> when there is none, \<open>Some None\<close> when it is empty).
\<close>

record hint_element =
  he_tag :: string
  he_name :: "string option"
  he_answer :: "string option"
  he_samples :: "string option"

record hintpart =
  hp_on :: "string option"
  hp_text :: "string option option"

record hintgroup =
  hg_hintfn :: "string option"
  hg_mode :: "string option"
  hg_hints :: "hint_element list"
  hg_hintparts :: "hintpart list"

text \<open>What \<^verbatim>\<open>get_hints\<close> reads of a response.\<close>

record response =
  rsp_hintgroup :: "hintgroup option"
  rsp_hint_tag :: "string option"
  rsp_answer_ids :: "string list"
  rsp_context :: script_context

text \<open>
  The loop over the \<^verbatim>\<open>hintpart\<close> elements. \<open>hints_to_show\<close> is what
  \<^verbatim>\<open>check_hint_condition\<close> returned: \<open>None\<close> for Python's \<^verbatim>\<open>None\<close> (the method of
  the base class), on which \<^verbatim>\<open>in\<close> is a \<^verbatim>\<open>TypeError\<close>; otherwise the list of the
  names, each the \<^verbatim>\<open>name\<close> attribute of a condition, which may be missing.
\<close>

fun hint_loop ::
  "string list \<Rightarrow> string option list option \<Rightarrow> string \<Rightarrow> hintpart list \<Rightarrow> correct_map
     \<Rightarrow> error + correct_map" where
  "hint_loop answer_ids hints_to_show mode [] new_cmap = Inr new_cmap"
| "hint_loop answer_ids hints_to_show mode (hp # hps) new_cmap =
     (case hints_to_show of
        None \<Rightarrow> Inl TypeError
      | Some hs \<Rightarrow>
          if hp_on hp \<in> set hs
          then (case hp_text hp of
                  None \<Rightarrow> Inl AttributeError
                | Some hint_text \<Rightarrow>
                    if answer_ids = [] then Inl IndexError
                    else hint_loop answer_ids hints_to_show mode hps
                           (set_hint_and_mode new_cmap (last answer_ids) hint_text mode))
          else hint_loop answer_ids hints_to_show mode hps new_cmap)"

text \<open>
  \<^verbatim>\<open>LoncapaResponse.get_hints\<close>, returning the \<^verbatim>\<open>new_cmap\<close> it modifies.
  \<open>check_hint_condition\<close> is the method of the response type; \<open>call\<close> applies a
  function of the script context to \<^verbatim>\<open>(answer_ids, student_answers, new_cmap, old_cmap)\<close>
  and returns the \<^verbatim>\<open>new_cmap\<close> the function leaves.
\<close>

definition get_hints ::
  "(hint_element list \<Rightarrow> answers \<Rightarrow> error + string option list option)
   \<Rightarrow> (pyval \<Rightarrow> string list \<Rightarrow> answers \<Rightarrow> correct_map \<Rightarrow> correct_map \<Rightarrow> error + correct_map)
   \<Rightarrow> response \<Rightarrow> answers \<Rightarrow> correct_map \<Rightarrow> correct_map \<Rightarrow> error + correct_map" where
  "get_hints check_hint_condition call r student_answers new_cmap old_cmap =
     (case rsp_hintgroup r of
        None \<Rightarrow> Inr new_cmap
      | Some hintgroup \<Rightarrow>
          if hg_hintfn hintgroup \<noteq> None \<and> hg_hintfn hintgroup \<noteq> Some []
          then (case rsp_context r (the (hg_hintfn hintgroup)) of
                  None \<Rightarrow> Inl (LoncapaProblemError ''missing specified hint function in script context'')
                | Some f \<Rightarrow>
                    (case call f (rsp_answer_ids r) student_answers new_cmap old_cmap of
                       Inl err \<Rightarrow> Inl (ResponseError ''Error in evaluating hint function'')
                     | Inr cm \<Rightarrow> Inr cm))
          else (case rsp_hint_tag r of
                  None \<Rightarrow> Inr new_cmap
                | Some hint_tag \<Rightarrow>
                    (let rephints = filter (\<lambda>h. he_tag h = hint_tag) (hg_hints hintgroup) in
                     if rephints = [] then Inr new_cmap
                     else (case check_hint_condition rephints student_answers of
                             Inl err \<Rightarrow> Inl err
                           | Inr hints_to_show \<Rightarrow>
                               hint_loop (rsp_answer_ids r) hints_to_show
                                 (case hg_mode hintgroup of None \<Rightarrow> ''always'' | Some m \<Rightarrow> m)
                                 (hg_hintparts hintgroup) new_cmap))))"

section \<open>String responses\<close>

text \<open>
  \<^verbatim>\<open>StringResponse\<close>: one input field, the expected string stripped at set-up, and
  the \<^verbatim>\<open>type\<close> attribute of the response, \<^verbatim>\<open>ci\<close> for a comparison that ignores case.
\<close>

record string_response =
  str_answer_id :: string
  str_correct_answer :: string
  str_type :: "string option"

definition lower :: "string \<Rightarrow> string" where
  "lower s = map (\<lambda>c. if CHR ''A'' \<le> c \<and> c \<le> CHR ''Z'' then char_of (of_char c + (32::nat)) else c) s"

definition check_string :: "string_response \<Rightarrow> string \<Rightarrow> string \<Rightarrow> bool" where
  "check_string r expected given =
     (if str_type r = Some ''ci'' then lower given = lower expected else given = expected)"

definition StringResponse_get_score :: "string_response \<Rightarrow> answers \<Rightarrow> error + correct_map" where
  "StringResponse_get_score r student_answers =
     (case map_of student_answers (str_answer_id r) of
        None \<Rightarrow> Inl KeyError
      | Some (PyStr s) \<Rightarrow>
          Inr (CorrectMap (str_answer_id r)
                 (if check_string r (str_correct_answer r) (strip s) then ''correct'' else ''incorrect'')
                 None)
      | Some _ \<Rightarrow> Inl AttributeError)"

text \<open>
  \<^verbatim>\<open>StringResponse.check_hint_condition\<close>. \<open>contextualize_text\<close> (module \<^verbatim>\<open>util\<close>)
  substitutes the names of the script context in the \<^verbatim>\<open>answer\<close> attribute of a
  condition; it is a parameter here.
\<close>

fun string_hints ::
  "(string option \<Rightarrow> error + string) \<Rightarrow> string_response \<Rightarrow> string \<Rightarrow> hint_element list
     \<Rightarrow> error + string option list" where
  "string_hints contextualize_text r given [] = Inr []"
| "string_hints contextualize_text r given (hxml # hxmls) =
     (case contextualize_text (he_answer hxml) of
        Inl e \<Rightarrow> Inl e
      | Inr correct_answer \<Rightarrow>
          (case string_hints contextualize_text r given hxmls of
             Inl e \<Rightarrow> Inl e
           | Inr hs \<Rightarrow>
               Inr (if check_string r (strip correct_answer) given then he_name hxml # hs else hs)))"

definition StringResponse_check_hint_condition ::
  "(string option \<Rightarrow> error + string) \<Rightarrow> string_response \<Rightarrow> hint_element list \<Rightarrow> answers
     \<Rightarrow> error + string option list option" where
  "StringResponse_check_hint_condition contextualize_text r hxml_set student_answers =
     (case map_of student_answers (str_answer_id r) of
        None \<Rightarrow> Inl KeyError
      | Some (PyStr s) \<Rightarrow>
          (case string_hints contextualize_text r (strip s) hxml_set of
             Inl e \<Rightarrow> Inl e | Inr hs \<Rightarrow> Inr (Some hs))
      | Some _ \<Rightarrow> Inl AttributeError)"

subsection \<open>A string response with two hint conditions\<close>

text \<open>
  A case-insensitive string response expecting \<^verbatim>\<open>Paris\<close>, with two hint conditions
  that both match the answer \<^verbatim>\<open>London\<close> and a hint part for each.
\<close>

definition example_hintgroup :: hintgroup where
  "example_hintgroup = \<lparr>hg_hintfn = None, hg_mode = None,
     hg_hints = [\<lparr>he_tag = ''stringhint'', he_name = Some ''h1'', he_answer = Some ''london'',
                   he_samples = None\<rparr>,
                 \<lparr>he_tag = ''stringhint'', he_name = Some ''h2'', he_answer = Some '' London'',
                   he_samples = None\<rparr>],
     hg_hintparts = [\<lparr>hp_on = Some ''h1'', hp_text = Some (Some ''first'')\<rparr>,
                     \<lparr>hp_on = Some ''h2'', hp_text = Some (Some ''second'')\<rparr>]\<rparr>"

definition example_response :: response where
  "example_response = \<lparr>rsp_hintgroup = Some example_hintgroup, rsp_hint_tag = Some ''stringhint'',
     rsp_answer_ids = [''1_2_1''], rsp_context = Map.empty\<rparr>"

definition example_string_response :: string_response where
  "example_string_response =
     \<lparr>str_answer_id = ''1_2_1'', str_correct_answer = ''Paris'', str_type = Some ''ci''\<rparr>"

definition example_contextualize :: "string option \<Rightarrow> error + string" where
  "example_contextualize a = (case a of None \<Rightarrow> Inl TypeError | Some s \<Rightarrow> Inr s)"

section \<open>Custom responses\<close>

text \<open>
  A check function of the script context, as \<^verbatim>\<open>inspect.getargspec\<close> and the call see
  it: the names of its arguments, how many of them (the last ones) have a default, and
  what a call with positional and keyword arguments returns or raises. The function is
  taken to leave its arguments as they are.
\<close>

record pyfunction =
  fn_args :: "string list"
  fn_defaults :: nat
  fn_call :: "pyval list \<Rightarrow> (string \<times> pyval) list \<Rightarrow> error + pyval"

text \<open>
  \<^verbatim>\<open>self.code\<close> after \<^verbatim>\<open>setup_response\<close>: the text of a script (a \<^verbatim>\<open>str\<close>), a
  function of the script context, or some other value (an empty \<^verbatim>\<open>answer\<close> element
  gives \<^verbatim>\<open>None\<close>), which \<^verbatim>\<open>get_score\<close> takes for a function.
\<close>

datatype checker = Code string | Fn pyfunction | NotCallable

record custom_response =
  cust_answer_ids :: "string list"
  cust_xml :: pyval
  cust_myid :: pyval
  cust_expect :: pyval
  cust_options :: pyval
  cust_code :: checker
  cust_debug :: pyval

text \<open>\<^verbatim>\<open>[student_answers.get(k+'_dynamath',None) for k in idset]\<close>.\<close>

definition get_dynamath :: "answers \<Rightarrow> string list \<Rightarrow> pyval list" where
  "get_dynamath student_answers idset =
     map (\<lambda>k. case map_of student_answers (k @ ''_dynamath'') of None \<Rightarrow> PyNone | Some v \<Rightarrow> v) idset"

text \<open>
  The context after \<^verbatim>\<open>self.context.update({...})\<close> and
  \<^verbatim>\<open>self.context['debug'] = self.system.DEBUG\<close>.
\<close>

definition update_context ::
  "custom_response \<Rightarrow> script_context \<Rightarrow> answers \<Rightarrow> string list \<Rightarrow> pyval list
     \<Rightarrow> string list \<Rightarrow> string list \<Rightarrow> script_context" where
  "update_context r ctx student_answers idset submission correct messages =
     ctx(''xml'' \<mapsto> cust_xml r,
         ''response_id'' \<mapsto> cust_myid r,
         ''expect'' \<mapsto> cust_expect r,
         ''submission'' \<mapsto> PyList submission,
         ''idset'' \<mapsto> PyList (map PyStr idset),
         ''dynamath'' \<mapsto> PyList (get_dynamath student_answers idset),
         ''answers'' \<mapsto> PyDict student_answers,
         ''correct'' \<mapsto> PyList (map PyStr correct),
         ''messages'' \<mapsto> PyList (map PyStr messages),
         ''options'' \<mapsto> cust_options r,
         ''testdat'' \<mapsto> PyStr ''hello world'',
         ''debug'' \<mapsto> cust_debug r)"

text \<open>
  \<^verbatim>\<open>'... %s' % v\<close>, as the calls of \<^verbatim>\<open>log.debug\<close> format a value: a tuple on the
  right of \<^verbatim>\<open>%\<close> is taken for the list of the arguments, so the formatting raises a
  \<^verbatim>\<open>TypeError\<close> for a tuple that has not exactly one element, and for nothing else.
\<close>

fun format_raises :: "pyval \<Rightarrow> bool" where
  "format_raises (PyTuple xs) = (length xs \<noteq> 1)"
| "format_raises _ = False"

text \<open>
  The \<^verbatim>\<open>try\<close> block around the call of the check function: the four candidate
  arguments, the number \<^verbatim>\<open>nargs\<close> of arguments without a default, the keyword
  arguments read from the context (\<^verbatim>\<open>None\<close> for a name that is not there), the
  logging of \<^verbatim>\<open>answer_given\<close>, and the call \<^verbatim>\<open>fn(*args[:nargs], **kwargs)\<close>, which
  lacks an argument when \<^verbatim>\<open>nargs\<close> exceeds four. Whatever is raised inside the block is raised again as an
  \<^verbatim>\<open>Exception\<close>.
\<close>

definition call_check_function ::
  "custom_response \<Rightarrow> checker \<Rightarrow> script_context \<Rightarrow> answers \<Rightarrow> string list \<Rightarrow> pyval list
     \<Rightarrow> error + pyval" where
  "call_check_function r code ctx student_answers idset submission =
     (case (if cust_answer_ids r = [] then Inl IndexError
            else (let answer_given = (if length idset = 1 then hd submission else PyList submission);
                      args = [cust_expect r, answer_given, PyDict student_answers,
                              PyStr (hd (cust_answer_ids r))]
                  in case code of
                       Fn fn \<Rightarrow>
                         (let nargs = length (fn_args fn) - fn_defaults fn;
                              kwargs = map (\<lambda>argname. (argname,
                                             case ctx argname of None \<Rightarrow> PyNone | Some v \<Rightarrow> v))
                                         (drop nargs (fn_args fn))
                          in if format_raises answer_given then Inl TypeError
                             else if nargs \<le> length args then fn_call fn (take nargs args) kwargs
                             else Inl TypeError)
                     | _ \<Rightarrow> Inl TypeError)) of
        Inl err \<Rightarrow> Inl (Exception ''customresponse (cfn) error'')
      | Inr ret \<Rightarrow> Inr ret)"

text \<open>
  \<^verbatim>\<open>re.sub('(?ms)<html>(.*)</html>','\\1',msg)\<close>: from the first \<^verbatim>\<open><html>\<close> to the
  last \<^verbatim>\<open></html>\<close> after it, only what is between the two stays.
\<close>

definition find_all :: "string \<Rightarrow> string \<Rightarrow> nat list" where
  "find_all p s = filter (\<lambda>i. take (length p) (drop i s) = p) [0..<Suc (length s - length p)]"

definition sub_html :: "string \<Rightarrow> string" where
  "sub_html s =
     (case find_all ''<html>'' s of
        [] \<Rightarrow> s
      | i # _ \<Rightarrow>
          (let rest = drop (i + 6) s in
           case rev (find_all ''</html>'' rest) of
             [] \<Rightarrow> s
           | j # _ \<Rightarrow> take i s @ take j rest @ drop (j + 7) rest))"

text \<open>
  The clean-up of the message of a structured result. \<open>tostring_bs\<close> stands for
  \<^verbatim>\<open>etree.tostring(fromstring_bs(msg,convertEntities=None),pretty_print=True)\<close>.
\<close>

definition clean_msg :: "(string \<Rightarrow> error + string) \<Rightarrow> pyval \<Rightarrow> error + string" where
  "clean_msg tostring_bs m =
     (case m of
        PyStr s \<Rightarrow>
          (case tostring_bs (replace ''&#60;'' ''&lt;'' (''<html>'' @ s @ ''</html>'')) of
             Inl e \<Rightarrow> Inl e
           | Inr t \<Rightarrow> Inr (sub_html (replace ''&#13;'' '''' t)))
      | _ \<Rightarrow> Inl TypeError)"

text \<open>\<^verbatim>\<open>ret['ok']\<close> and \<^verbatim>\<open>ret['msg']\<close>: a later pair of a dict wins, a missing key raises.\<close>

definition dict_get :: "(string \<times> pyval) list \<Rightarrow> string \<Rightarrow> error + pyval" where
  "dict_get kvs k = (case map_of (rev kvs) k of None \<Rightarrow> Inl KeyError | Some v \<Rightarrow> Inr v)"

text \<open>
  What follows the call. First the result \<^verbatim>\<open>ret\<close> of the check function is logged,
  \<^verbatim>\<open>log.debug("... ret = %s" % ret)\<close>, outside the \<^verbatim>\<open>try\<close>; then the lists
  \<^verbatim>\<open>correct\<close> and \<^verbatim>\<open>messages\<close> are read off it.
\<close>

definition read_result ::
  "(string \<Rightarrow> error + string) \<Rightarrow> string list \<Rightarrow> string list \<Rightarrow> pyval
     \<Rightarrow> error + (string list \<times> string list)" where
  "read_result tostring_bs idset messages ret =
     (if format_raises ret then Inl TypeError
      else case ret of
        PyDict kvs \<Rightarrow>
          (case dict_get kvs ''ok'' of
             Inl e \<Rightarrow> Inl e
           | Inr ok \<Rightarrow>
               (let correct = (if truthy ok then replicate (length idset) ''correct''
                               else replicate (length idset) ''incorrect'') in
                case dict_get kvs ''msg'' of
                  Inl e \<Rightarrow> Inl e
                | Inr m \<Rightarrow>
                    (case clean_msg tostring_bs m of
                       Inl e \<Rightarrow> Inl e
                     | Inr m' \<Rightarrow>
                         if messages = [] then Inl IndexError
                         else Inr (correct, messages[0 := m']))))
      | _ \<Rightarrow>
          Inr (if truthy ret then replicate (length idset) ''correct''
               else replicate (length idset) ''incorrect'', messages))"

text \<open>
  The last loop: \<^verbatim>\<open>correct_map.set(idset[k], correct[k], msg=messages[k])\<close> for every
  position of \<^verbatim>\<open>idset\<close>.
\<close>

fun build_map ::
  "string list \<Rightarrow> string list \<Rightarrow> string list \<Rightarrow> correct_map \<Rightarrow> error + correct_map" where
  "build_map [] cs ms correct_map = Inr correct_map"
| "build_map (k # ks) [] ms correct_map = Inl IndexError"
| "build_map (k # ks) (c # cs) [] correct_map = Inl IndexError"
| "build_map (k # ks) (c # cs) (m # ms) correct_map =
     build_map ks cs ms (cm_set correct_map k c (Some m))"

text \<open>
  \<^verbatim>\<open>CustomResponse.get_score\<close>, with the context it leaves. \<open>exec_code\<close> stands for
  \<^verbatim>\<open>exec self.code in self.context['global_context'], self.context\<close>: given the code
  and the context it returns the context it leaves together with the final contents of
  the two lists \<^verbatim>\<open>correct\<close> and \<^verbatim>\<open>messages\<close>, which the script fills in place; what
  the script raises is printed and dropped, and so is the \<^verbatim>\<open>KeyError\<close> of a context
  without \<^verbatim>\<open>global_context\<close>.
\<close>

definition CustomResponse_get_score ::
  "(string \<Rightarrow> script_context \<Rightarrow> script_context \<times> string list \<times> string list)
   \<Rightarrow> (string \<Rightarrow> error + string)
   \<Rightarrow> custom_response \<Rightarrow> script_context \<Rightarrow> answers
   \<Rightarrow> (error + correct_map) \<times> script_context" where
  \<open>CustomResponse_get_score exec_code tostring_bs r ctx student_answers =
     (let idset = sort (cust_answer_ids r) in
      case get_submission student_answers idset of
        Inl err \<Rightarrow>
          (Inl (Exception ''[courseware.capa.responsetypes.customresponse] error getting student answer''),
           ctx)
      | Inr submission \<Rightarrow>
          if length idset = 1 \<and> \<not> truthy (hd submission)
          then (Inr (CorrectMap (hd idset) ''incorrect''
                       (Some ''<font color="red">No answer entered!</font>'')), ctx)
          else
            (let correct = replicate (length idset) ''unknown'';
                 messages = replicate (length idset) '''';
                 ctx1 = update_context r ctx student_answers idset submission correct messages
             in case cust_code r of
                  Code code \<Rightarrow>
                    (if ctx1 ''global_context'' = None
                     then (build_map idset correct messages Map.empty, ctx1)
                     else (case exec_code code ctx1 of
                             (ctx2, correct2, messages2) \<Rightarrow>
                               (build_map idset correct2 messages2 Map.empty, ctx2)))
                | fn \<Rightarrow>
                    (case call_check_function r fn ctx1 student_answers idset submission of
                       Inl err \<Rightarrow> (Inl err, ctx1)
                     | Inr ret \<Rightarrow>
                         (case read_result tostring_bs idset messages ret of
                            Inl err \<Rightarrow> (Inl err, ctx1)
                          | Inr (correct2, messages2) \<Rightarrow>
                              (build_map idset correct2 messages2 Map.empty,
                               ctx1(''messages'' \<mapsto> PyList (map PyStr messages2)))))))\<close>

text \<open>
  A custom response with two answer fields whose check function returns a given value.
\<close>

definition example_custom :: "pyval \<Rightarrow> custom_response" where
  "example_custom ret =
     \<lparr>cust_answer_ids = [''1_2_1'', ''1_2_2''], cust_xml = PyObj 0, cust_myid = PyStr ''1_2'',
      cust_expect = PyNone, cust_options = PyNone,
      cust_code = Fn \<lparr>fn_args = [''expect'', ''ans'', ''options''], fn_defaults = 1,
                       fn_call = (\<lambda>args kwargs. Inr ret)\<rparr>,
      cust_debug = PyBool False\<rparr>"

section \<open>Formula responses\<close>

text \<open>\<^verbatim>\<open>s.split(sep)\<close> for a separator of one character: never an empty list.\<close>

fun split :: "char \<Rightarrow> string \<Rightarrow> string list" where
  "split sep [] = [[]]"
| "split sep (c # cs) =
     (if c = sep then [] # split sep cs
      else (case split sep cs of [] \<Rightarrow> [[c]] | x # xs \<Rightarrow> (c # x) # xs))"

text \<open>\<^verbatim>\<open>zip(*rows)\<close>: the columns of the rows, as many as the shortest row has.\<close>

definition zip_star :: "'a list list \<Rightarrow> 'a list list" where
  "zip_star rows =
     (if rows = [] then []
      else map (\<lambda>i. map (\<lambda>row. row ! i) rows) [0..<foldr min (map length rows) (length (hd rows))])"

text \<open>
  \<^verbatim>\<open>dict(pairs)\<close> as the list of its items: a key that comes again keeps its place and
  takes the later value. (The order in which Python goes through a dict is another one;
  it decides only which random draw goes to which variable.)
\<close>

fun dict_insert :: "'k \<Rightarrow> 'v \<Rightarrow> ('k \<times> 'v) list \<Rightarrow> ('k \<times> 'v) list" where
  "dict_insert k v [] = [(k, v)]"
| "dict_insert k v ((k', v') # kvs) =
     (if k = k' then (k, v) # kvs else (k', v') # dict_insert k v kvs)"

definition dict_of :: "('k \<times> 'v) list \<Rightarrow> ('k \<times> 'v) list" where
  "dict_of kvs = foldl (\<lambda>d kv. dict_insert (fst kv) (snd kv) d) [] kvs"

text \<open>\<^verbatim>\<open>map(float, xs)\<close> for every row; the first string that is no number raises.\<close>

fun map_option :: "('a \<Rightarrow> 'b option) \<Rightarrow> 'a list \<Rightarrow> 'b list option" where
  "map_option f [] = Some []"
| "map_option f (x # xs) =
     (case f x of None \<Rightarrow> None
      | Some y \<Rightarrow> (case map_option f xs of None \<Rightarrow> None | Some ys \<Rightarrow> Some (y # ys)))"

text \<open>
  The first four statements of \<^verbatim>\<open>check_formula\<close>, which read the sample
  specification, for instance \<^verbatim>\<open>m,c@1,2:3,4#10\<close>: the variables, the number of samples
  and the range of every variable. \<open>py_int\<close> and \<open>py_float\<close> are Python's \<^verbatim>\<open>int\<close> and
  \<^verbatim>\<open>float\<close> on a string, \<open>None\<close> where they raise \<^verbatim>\<open>ValueError\<close>; the floats are taken as
  real numbers.
\<close>

definition parse_samples ::
  "(string \<Rightarrow> int option) \<Rightarrow> (string \<Rightarrow> real option) \<Rightarrow> string
     \<Rightarrow> error + (int \<times> (string \<times> real list) list)" where
  "parse_samples py_int py_float samples =
     (let variables = split CHR '','' (hd (split CHR ''@'' samples)) in
      case tl (split CHR ''@'' samples) of
        [] \<Rightarrow> Inl IndexError
      | after_at # _ \<Rightarrow>
          (case tl (split CHR ''#'' after_at) of
             [] \<Rightarrow> Inl IndexError
           | count # _ \<Rightarrow>
               (case py_int count of
                  None \<Rightarrow> Inl ValueError
                | Some numsamples \<Rightarrow>
                    (case map_option (\<lambda>x. map_option py_float (split CHR '','' x))
                            (split CHR '':'' (hd (split CHR ''#'' after_at))) of
                       None \<Rightarrow> Inl ValueError
                     | Some rows \<Rightarrow>
                         Inr (numsamples, dict_of (zip variables (zip_star rows)))))))"

text \<open>
  \<^verbatim>\<open>strip_dict\<close>: of a context, the names that are alphanumeric and bound to a number,
  with the number as a complex one. A Python \<^verbatim>\<open>bool\<close> is a number.
\<close>

definition isalnum :: "string \<Rightarrow> bool" where
  "isalnum k = (k \<noteq> [] \<and> list_all (\<lambda>c. (CHR ''0'' \<le> c \<and> c \<le> CHR ''9'')
                                      \<or> (CHR ''a'' \<le> c \<and> c \<le> CHR ''z'')
                                      \<or> (CHR ''A'' \<le> c \<and> c \<le> CHR ''Z'')) k)"

definition strip_dict :: "script_context \<Rightarrow> string \<rightharpoonup> pynum" where
  "strip_dict d k =
     (if isalnum k
      then (case d k of
              Some (PyNum n) \<Rightarrow> Some n
            | Some (PyBool b) \<Rightarrow> Some (Fin (if b then 1 else 0))
            | _ \<Rightarrow> None)
      else None)"

record formula_response =
  frm_answer_id :: string
  frm_correct_answer :: string
  frm_samples :: string
  frm_case_sensitive :: bool
  frm_context :: script_context

text \<open>
  The inner loop of a trial: one draw \<^verbatim>\<open>random.uniform(*ranges[var])\<close> for every
  variable, a \<^verbatim>\<open>TypeError\<close> when the range has not exactly two bounds. \<open>uniform\<close> is
  the random source: from its state and the two bounds it gives the value drawn and the
  next state.
\<close>

fun draw ::
  "('g \<Rightarrow> real \<Rightarrow> real \<Rightarrow> real \<times> 'g) \<Rightarrow> (string \<times> real list) list \<Rightarrow> 'g
     \<Rightarrow> (error + (string \<times> pynum) list) \<times> 'g" where
  "draw uniform [] g = (Inr [], g)"
| "draw uniform ((var, bounds) # rest) g =
     (case bounds of
        [a, b] \<Rightarrow>
          (case uniform g a b of
             (v, g1) \<Rightarrow>
               (case draw uniform rest g1 of
                  (Inl e, g2) \<Rightarrow> (Inl e, g2)
                | (Inr vals, g2) \<Rightarrow> (Inr ((var, Fin (complex_of_real v)) # vals), g2)))
      | _ \<Rightarrow> (Inl TypeError, g))"

text \<open>The variables of the two evaluations of a trial, given the values drawn.\<close>

definition instructor_variables :: "formula_response \<Rightarrow> (string \<times> pynum) list \<Rightarrow> string \<rightharpoonup> pynum" where
  "instructor_variables r vals = strip_dict (frm_context r) ++ map_of vals"

definition student_variables :: "(string \<times> pynum) list \<Rightarrow> string \<rightharpoonup> pynum" where
  "student_variables vals = map_of vals"

text \<open>
  The rest of a trial. \<open>evaluator\<close> is \<^verbatim>\<open>calc.evaluator\<close> (with no functions), given
  the variables, the expression and the case-sensitivity flag; \<open>compare\<close> is
  \<^verbatim>\<open>compare_with_tolerance\<close> with the tolerance of the response, given the student's result
  and the instructor's. The evaluation of the expected expression is outside the
  \<^verbatim>\<open>try\<close>; the two \<^verbatim>\<open>except\<close> clauses guard the evaluation of the student's
  expression only. The result is \<open>True\<close> when the loop goes on, \<open>False\<close> when it
  returns \<^verbatim>\<open>incorrect\<close>.
\<close>

definition trial ::
  "((string \<rightharpoonup> pynum) \<Rightarrow> string \<Rightarrow> bool \<Rightarrow> error + pynum) \<Rightarrow> (pynum \<Rightarrow> pynum \<Rightarrow> bool)
     \<Rightarrow> formula_response \<Rightarrow> string \<Rightarrow> string \<Rightarrow> (string \<times> pynum) list \<Rightarrow> error + bool" where
  "trial evaluator compare r expected given vals =
     (case evaluator (instructor_variables r vals) expected (frm_case_sensitive r) of
        Inl e \<Rightarrow> Inl e
      | Inr instructor_result \<Rightarrow>
          (case evaluator (student_variables vals) given (frm_case_sensitive r) of
             Inl (UndefinedVariable m) \<Rightarrow> Inl (StudentInputError (m @ '' not permitted in answer''))
           | Inl _ \<Rightarrow> Inl (StudentInputError ''Error in formula'')
           | Inr student_result \<Rightarrow>
               if isnan student_result \<or> isinf student_result then Inr False
               else if \<not> compare student_result instructor_result then Inr False
               else Inr True))"

text \<open>The loop \<^verbatim>\<open>for i in range(numsamples)\<close>, with the state of the random source.\<close>

fun check_loop ::
  "((string \<rightharpoonup> pynum) \<Rightarrow> string \<Rightarrow> bool \<Rightarrow> error + pynum) \<Rightarrow> (pynum \<Rightarrow> pynum \<Rightarrow> bool)
     \<Rightarrow> ('g \<Rightarrow> real \<Rightarrow> real \<Rightarrow> real \<times> 'g)
     \<Rightarrow> formula_response \<Rightarrow> string \<Rightarrow> string \<Rightarrow> (string \<times> real list) list \<Rightarrow> nat \<Rightarrow> 'g
     \<Rightarrow> (error + string) \<times> 'g" where
  "check_loop evaluator compare uniform r expected given ranges 0 g = (Inr ''correct'', g)"
| "check_loop evaluator compare uniform r expected given ranges (Suc n) g =
     (case draw uniform ranges g of
        (Inl e, g1) \<Rightarrow> (Inl e, g1)
      | (Inr vals, g1) \<Rightarrow>
          (case trial evaluator compare r expected given vals of
             Inl e \<Rightarrow> (Inl e, g1)
           | Inr False \<Rightarrow> (Inr ''incorrect'', g1)
           | Inr True \<Rightarrow> check_loop evaluator compare uniform r expected given ranges n g1))"

text \<open>\<^verbatim>\<open>FormulaResponse.check_formula\<close>; \<^verbatim>\<open>range\<close> of a negative number is empty.\<close>

definition check_formula ::
  "(string \<Rightarrow> int option) \<Rightarrow> (string \<Rightarrow> real option)
     \<Rightarrow> ((string \<rightharpoonup> pynum) \<Rightarrow> string \<Rightarrow> bool \<Rightarrow> error + pynum) \<Rightarrow> (pynum \<Rightarrow> pynum \<Rightarrow> bool)
     \<Rightarrow> ('g \<Rightarrow> real \<Rightarrow> real \<Rightarrow> real \<times> 'g)
     \<Rightarrow> formula_response \<Rightarrow> string \<Rightarrow> string \<Rightarrow> string \<Rightarrow> 'g \<Rightarrow> (error + string) \<times> 'g" where
  "check_formula py_int py_float evaluator compare uniform r expected given samples g =
     (case parse_samples py_int py_float samples of
        Inl e \<Rightarrow> (Inl e, g)
      | Inr (numsamples, ranges) \<Rightarrow>
          check_loop evaluator compare uniform r expected given ranges (nat numsamples) g)"

text \<open>\<^verbatim>\<open>FormulaResponse.get_score\<close>.\<close>

definition FormulaResponse_get_score ::
  "(string \<Rightarrow> int option) \<Rightarrow> (string \<Rightarrow> real option)
     \<Rightarrow> ((string \<rightharpoonup> pynum) \<Rightarrow> string \<Rightarrow> bool \<Rightarrow> error + pynum) \<Rightarrow> (pynum \<Rightarrow> pynum \<Rightarrow> bool)
     \<Rightarrow> ('g \<Rightarrow> real \<Rightarrow> real \<Rightarrow> real \<times> 'g)
     \<Rightarrow> formula_response \<Rightarrow> answers \<Rightarrow> 'g \<Rightarrow> (error + correct_map) \<times> 'g" where
  "FormulaResponse_get_score py_int py_float evaluator compare uniform r student_answers g =
     (case map_of student_answers (frm_answer_id r) of
        None \<Rightarrow> (Inl KeyError, g)
      | Some (PyStr given) \<Rightarrow>
          (case check_formula py_int py_float evaluator compare uniform r
                  (frm_correct_answer r) given (frm_samples r) g of
             (Inl e, g1) \<Rightarrow> (Inl e, g1)
           | (Inr c, g1) \<Rightarrow> (Inr (CorrectMap (frm_answer_id r) c None), g1))
      | Some _ \<Rightarrow> (Inl TypeError, g))"

text \<open>
  The values drawn for trial \<open>i\<close> (counted from 0) when the loop starts in state \<open>g\<close>:
  every trial before it has made its draws.
\<close>

fun trial_values ::
  "('g \<Rightarrow> real \<Rightarrow> real \<Rightarrow> real \<times> 'g) \<Rightarrow> (string \<times> real list) list \<Rightarrow> 'g \<Rightarrow> nat
     \<Rightarrow> error + (string \<times> pynum) list" where
  "trial_values uniform ranges g 0 = fst (draw uniform ranges g)"
| "trial_values uniform ranges g (Suc i) = trial_values uniform ranges (snd (draw uniform ranges g)) i"

text \<open>
  The spec's words for a trial. It passes when both expressions evaluate under the values
  drawn for it, the student's result is finite and within tolerance of the
  instructor's; it fails when both evaluate and the student's result is not finite or
  not within tolerance. A trial on which an evaluation raises does neither.
\<close>

definition trial_passes ::
  "((string \<rightharpoonup> pynum) \<Rightarrow> string \<Rightarrow> bool \<Rightarrow> error + pynum) \<Rightarrow> (pynum \<Rightarrow> pynum \<Rightarrow> bool)
     \<Rightarrow> formula_response \<Rightarrow> string \<Rightarrow> string \<Rightarrow> error + (string \<times> pynum) list \<Rightarrow> bool" where
  "trial_passes evaluator compare r expected given drawn =
     (case drawn of
        Inl e \<Rightarrow> False
      | Inr vals \<Rightarrow>
          (case evaluator (instructor_variables r vals) expected (frm_case_sensitive r) of
             Inl e \<Rightarrow> False
           | Inr t \<Rightarrow>
               (case evaluator (student_variables vals) given (frm_case_sensitive r) of
                  Inl e \<Rightarrow> False
                | Inr s \<Rightarrow> \<not> isnan s \<and> \<not> isinf s \<and> compare s t)))"


subsection \<open>A toy evaluator and a toy random source\<close>

text \<open>
  Stand-ins for the collaborators, to run the definitions on: numerals of digits only,
  an evaluator that knows a few expressions in \<^verbatim>\<open>x\<close> (a division by zero raises), and
  a random source that counts its draws, returns the lower bound at the first draw and
  the middle of the range afterwards.
\<close>

definition example_int :: "string \<Rightarrow> int option" where
  "example_int s = (if s \<noteq> [] \<and> list_all isdigit s then Some (int (int_of_digits s)) else None)"

definition example_float :: "string \<Rightarrow> real option" where
  "example_float s = (if s \<noteq> [] \<and> list_all isdigit s then Some (real (int_of_digits s)) else None)"

definition example_evaluator :: "(string \<rightharpoonup> pynum) \<Rightarrow> string \<Rightarrow> bool \<Rightarrow> error + pynum" where
  "example_evaluator vars expr cs =
     (if expr = ''1e999'' then Inr Inf
      else (case vars ''x'' of
              Some (Fin v) \<Rightarrow>
                if expr = ''x'' then Inr (Fin v)
                else if expr = ''x+x'' then Inr (Fin (v + v))
                else if expr = ''2*x'' then Inr (Fin (2 * v))
                else if expr = ''1/x''
                then (if v = 0 then Inl (Exception ''ZeroDivisionError'') else Inr (Fin (1 / v)))
                else Inl (UndefinedVariable expr)
            | _ \<Rightarrow> Inl (UndefinedVariable expr)))"

definition example_compare :: "pynum \<Rightarrow> pynum \<Rightarrow> bool" where
  "example_compare s t =
     (case (s, t) of
        (Fin a, Fin b) \<Rightarrow> compare_with_tolerance a b (Absolute (1 / 100000))
      | _ \<Rightarrow> False)"

definition example_uniform :: "nat \<Rightarrow> real \<Rightarrow> real \<Rightarrow> real \<times> nat" where
  "example_uniform g a b = (if g = 0 then a else (a + b) / 2, Suc g)"

definition example_formula :: formula_response where
  "example_formula =
     \<lparr>frm_answer_id = ''1_2_1'', frm_correct_answer = ''2*x'', frm_samples = ''x@0:1#2'',
      frm_case_sensitive = False, frm_context = Map.empty\<rparr>"

section \<open>Properties\<close>

lemma verdict_CorrectMap: "verdict (CorrectMap aid c m) aid = Some c"
  by (simp add: verdict_def CorrectMap_def cm_set_def empty_entry_def)

lemma CorrectMap_eq_iff: "CorrectMap aid c m = CorrectMap aid c' m' \<longleftrightarrow> c = c' \<and> m = m'"
proof
  assume h: "CorrectMap aid c m = CorrectMap aid c' m'"
  then have "CorrectMap aid c m aid = CorrectMap aid c' m' aid" by simp
  then show "c = c' \<and> m = m'"
    by (simp add: CorrectMap_def cm_set_def empty_entry_def)
next
  assume "c = c' \<and> m = m'"
  then show "CorrectMap aid c m = CorrectMap aid c' m'" by simp
qed

text \<open>
  C9. For every \<^verbatim>\<open>student_answers\<close> in which the answer id of a multiple-choice
  response is absent, or bound to a value that is not one of the correct choices,
  \<^verbatim>\<open>get_score\<close> returns (it does not raise) the map marking that answer id
  \<^verbatim>\<open>incorrect\<close>.
\<close>

theorem MultipleChoice_incorrect_no_raise:
  assumes "map_of student_answers (answer_id r) = None
           \<or> (\<exists>v. map_of student_answers (answer_id r) = Some v
                  \<and> \<not> in_choices v (correct_choices r))"
  shows "MultipleChoiceResponse_get_score r student_answers
           = Inr (CorrectMap (answer_id r) ''incorrect'' None)
         \<and> (\<exists>cm. MultipleChoiceResponse_get_score r student_answers = Inr cm
                 \<and> verdict cm (answer_id r) = Some ''incorrect'')"
  using assms
  by (auto simp: MultipleChoiceResponse_get_score_def verdict_CorrectMap)

theorem MultipleChoice_incorrect_no_raise_witness:
  "MultipleChoiceResponse_get_score
      \<lparr>answer_id = ''1_2_1'', correct_choices = [''choice_1'']\<rparr> []
     = Inr (CorrectMap ''1_2_1'' ''incorrect'' None)
   \<and> MultipleChoiceResponse_get_score
      \<lparr>answer_id = ''1_2_1'', correct_choices = [''choice_1'']\<rparr>
      [(''1_2_1'', PyStr ''choice_0'')]
     = Inr (CorrectMap ''1_2_1'' ''incorrect'' None)"
  using MultipleChoice_incorrect_no_raise
          [of "[]" "\<lparr>answer_id = ''1_2_1'', correct_choices = [''choice_1'']\<rparr>"]
        MultipleChoice_incorrect_no_raise
          [of "[(''1_2_1'', PyStr ''choice_0'')]"
              "\<lparr>answer_id = ''1_2_1'', correct_choices = [''choice_1'']\<rparr>"]
  by (simp add: in_choices_def)

lemma py_set_choice_list: "py_set (PyList (map PyStr xs)) = Inr (PyStr ` set xs)"
  by (simp add: list_all_iff)

lemma PyStr_image_eq: "PyStr ` A = PyStr ` B \<longleftrightarrow> A = B"
  by (simp add: inj_image_eq_iff inj_on_def)

lemma TrueFalse_get_score_eq:
  assumes "map_of student_answers (answer_id r) = Some (PyList (map PyStr xs))
           \<or> (map_of student_answers (answer_id r) = None \<and> xs = [])"
  shows "TrueFalseResponse_get_score r student_answers
      = Inr (CorrectMap (answer_id r)
               (if set xs = set (correct_choices r) then ''correct'' else ''incorrect'') None)"
proof -
  have ps: "py_set (case map_of student_answers (answer_id r) of
                     None \<Rightarrow> PyList [] | Some v \<Rightarrow> v) = Inr (PyStr ` set xs)"
    using assms py_set_choice_list [of xs] by auto
  show ?thesis
    by (auto simp: TrueFalseResponse_get_score_def ps PyStr_image_eq)
qed

text \<open>
  C5. True/false grading compares sets: for a submitted list of choice ids (a missing
  answer counts as the empty list) the verdict is \<^verbatim>\<open>correct\<close> exactly when the set of
  the submitted ids equals the set of the correct choices, whatever the order, and it is
  \<^verbatim>\<open>incorrect\<close> otherwise, in particular for every strict subset and every strict
  superset of the correct choices.
\<close>

theorem TrueFalse_set_equality:
  assumes "map_of student_answers (answer_id r) = Some (PyList (map PyStr xs))
           \<or> (map_of student_answers (answer_id r) = None \<and> xs = [])"
  shows "((TrueFalseResponse_get_score r student_answers
            = Inr (CorrectMap (answer_id r) ''correct'' None))
           = (set xs = set (correct_choices r)))
       \<and> ((TrueFalseResponse_get_score r student_answers
            = Inr (CorrectMap (answer_id r) ''incorrect'' None))
           = (set xs \<noteq> set (correct_choices r)))
       \<and> (set xs \<subset> set (correct_choices r) \<or> set (correct_choices r) \<subset> set xs \<longrightarrow>
            TrueFalseResponse_get_score r student_answers
              = Inr (CorrectMap (answer_id r) ''incorrect'' None))"
  by (auto simp: TrueFalse_get_score_eq [OF assms] CorrectMap_eq_iff)

theorem TrueFalse_set_equality_witness:
  "TrueFalseResponse_get_score
      \<lparr>answer_id = ''1_2_1'', correct_choices = [''choice_0'', ''choice_2'']\<rparr>
      [(''1_2_1'', PyList [PyStr ''choice_2'', PyStr ''choice_0''])]
     = Inr (CorrectMap ''1_2_1'' ''correct'' None)
   \<and> TrueFalseResponse_get_score
      \<lparr>answer_id = ''1_2_1'', correct_choices = [''choice_0'', ''choice_2'']\<rparr>
      [(''1_2_1'', PyList [PyStr ''choice_0''])]
     = Inr (CorrectMap ''1_2_1'' ''incorrect'' None)
   \<and> TrueFalseResponse_get_score
      \<lparr>answer_id = ''1_2_1'', correct_choices = [''choice_0'', ''choice_2'']\<rparr>
      [(''1_2_1'', PyList [PyStr ''choice_0'', PyStr ''choice_1'', PyStr ''choice_2''])]
     = Inr (CorrectMap ''1_2_1'' ''incorrect'' None)"
proof -
  let ?r = "\<lparr>answer_id = ''1_2_1'', correct_choices = [''choice_0'', ''choice_2'']\<rparr>"
  have a: "set [''choice_2'', ''choice_0''] = set (correct_choices ?r)"
    by (simp add: insert_commute)
  have b1: "''choice_2'' \<in> set (correct_choices ?r)"
    by simp
  have b2: "''choice_2'' \<notin> set [''choice_0'']"
    by simp
  have b3: "set [''choice_0''] \<subseteq> set (correct_choices ?r)"
    by simp
  have b: "set [''choice_0''] \<subset> set (correct_choices ?r)"
    using b1 b2 b3 by blast
  have c1: "''choice_1'' \<in> set [''choice_0'', ''choice_1'', ''choice_2'']"
    by simp
  have c2: "''choice_1'' \<notin> set (correct_choices ?r)"
    by simp
  have c3: "set (correct_choices ?r) \<subseteq> set [''choice_0'', ''choice_1'', ''choice_2'']"
    by simp
  have c: "set (correct_choices ?r) \<subset> set [''choice_0'', ''choice_1'', ''choice_2'']"
    using c1 c2 c3 by blast
  have "TrueFalseResponse_get_score ?r
          [(''1_2_1'', PyList [PyStr ''choice_2'', PyStr ''choice_0''])]
        = Inr (CorrectMap ''1_2_1'' ''correct'' None)"
    using a TrueFalse_set_equality
          [of "[(''1_2_1'', PyList [PyStr ''choice_2'', PyStr ''choice_0''])]" ?r
              "[''choice_2'', ''choice_0'']"]
    by simp
  moreover have "TrueFalseResponse_get_score ?r [(''1_2_1'', PyList [PyStr ''choice_0''])]
        = Inr (CorrectMap ''1_2_1'' ''incorrect'' None)"
    using b TrueFalse_set_equality
          [of "[(''1_2_1'', PyList [PyStr ''choice_0''])]" ?r "[''choice_0'']"]
    by simp
  moreover have "TrueFalseResponse_get_score ?r
          [(''1_2_1'', PyList [PyStr ''choice_0'', PyStr ''choice_1'', PyStr ''choice_2''])]
        = Inr (CorrectMap ''1_2_1'' ''incorrect'' None)"
    using c TrueFalse_set_equality
          [of "[(''1_2_1'', PyList [PyStr ''choice_0'', PyStr ''choice_1'', PyStr ''choice_2''])]"
              ?r "[''choice_0'', ''choice_1'', ''choice_2'']"]
    by simp
  ultimately show ?thesis by simp
qed

lemma verdict_cm_set: "verdict (cm_set cm aid c m) a = (if a = aid then Some c else verdict cm a)"
  by (simp add: verdict_def cm_set_def empty_entry_def)




lemma image_loop_total:
  "\<forall>a\<in>set aids. \<exists>c. image_grade es sa a = Inr c \<Longrightarrow> \<exists>cm'. image_loop es sa aids cm = Inr cm'"
  by (induction aids arbitrary: cm) auto

lemma image_loop_verdict:
  "image_loop es sa aids cm = Inr cm' \<Longrightarrow>
   verdict cm' a = (if a \<in> set aids then (case image_grade es sa a of Inr c \<Rightarrow> Some c | Inl e \<Rightarrow> None)
                    else verdict cm a)"
proof (induction aids arbitrary: cm)
  case Nil
  then show ?case by simp
next
  case (Cons x xs)
  then obtain c where c: "image_grade es sa x = Inr c"
    and rest: "image_loop es sa xs (cm_set cm x c None) = Inr cm'"
    by (auto split: sum.splits)
  show ?case
    using Cons.IH [OF rest] c by (auto simp: verdict_cm_set)
qed

text \<open>
  C7. Image-region grading: when every rectangle and every submitted point of the
  response has the expected form, \<^verbatim>\<open>get_score\<close> returns a map in which the point
  \<open>(gx, gy)\<close> submitted for an answer id is \<^verbatim>\<open>correct\<close> exactly when
  \<open>llx \<le> gx \<le> urx\<close> and \<open>lly \<le> gy \<le> ury\<close> for the rectangle of that id, and
  \<^verbatim>\<open>incorrect\<close> otherwise. The bounds are inclusive, so corners and edges are correct and
  a point one unit outside an edge is not.
\<close>

theorem ImageResponse_rectangle_inclusive:
  assumes "\<forall>a\<in>set (image_answer_ids r). \<exists>rect g.
             ImageResponse_get_answers r a = Some (Some rect)
             \<and> map_of student_answers a = Some (PyStr g)
             \<and> match_rectangle (strip_spaces rect) \<noteq> None
             \<and> match_point (strip_spaces g) \<noteq> None"
  shows "\<exists>cm. ImageResponse_get_score r student_answers = Inr cm
          \<and> (\<forall>a\<in>set (image_answer_ids r). \<forall>rect g llx lly urx ury gx gy.
                ImageResponse_get_answers r a = Some (Some rect) \<longrightarrow>
                map_of student_answers a = Some (PyStr g) \<longrightarrow>
                match_rectangle (strip_spaces rect) = Some (llx, lly, urx, ury) \<longrightarrow>
                match_point (strip_spaces g) = Some (gx, gy) \<longrightarrow>
                  (verdict cm a = Some ''correct'')
                     = (llx \<le> gx \<and> gx \<le> urx \<and> lly \<le> gy \<and> gy \<le> ury)
                  \<and> (verdict cm a = Some ''incorrect'')
                     = (\<not> (llx \<le> gx \<and> gx \<le> urx \<and> lly \<le> gy \<and> gy \<le> ury)))"
proof -
  let ?es = "ImageResponse_get_answers r"
  have ok: "\<forall>a\<in>set (image_answer_ids r). \<exists>c. image_grade ?es student_answers a = Inr c"
  proof
    fix a assume "a \<in> set (image_answer_ids r)"
    with assms obtain rect g where
      "?es a = Some (Some rect)" "map_of student_answers a = Some (PyStr g)"
      "match_rectangle (strip_spaces rect) \<noteq> None" "match_point (strip_spaces g) \<noteq> None"
      by blast
    then show "\<exists>c. image_grade ?es student_answers a = Inr c"
      by (auto simp: image_grade_def)
  qed
  obtain cm where cm: "ImageResponse_get_score r student_answers = Inr cm"
    using image_loop_total [OF ok] unfolding ImageResponse_get_score_def by blast
  have "\<forall>a\<in>set (image_answer_ids r). \<forall>rect g llx lly urx ury gx gy.
                ?es a = Some (Some rect) \<longrightarrow>
                map_of student_answers a = Some (PyStr g) \<longrightarrow>
                match_rectangle (strip_spaces rect) = Some (llx, lly, urx, ury) \<longrightarrow>
                match_point (strip_spaces g) = Some (gx, gy) \<longrightarrow>
                  (verdict cm a = Some ''correct'')
                     = (llx \<le> gx \<and> gx \<le> urx \<and> lly \<le> gy \<and> gy \<le> ury)
                  \<and> (verdict cm a = Some ''incorrect'')
                     = (\<not> (llx \<le> gx \<and> gx \<le> urx \<and> lly \<le> gy \<and> gy \<le> ury))"
  proof (intro ballI allI impI)
    fix a rect g llx lly urx ury gx gy
    assume a: "a \<in> set (image_answer_ids r)"
      and "?es a = Some (Some rect)" "map_of student_answers a = Some (PyStr g)"
      "match_rectangle (strip_spaces rect) = Some (llx, lly, urx, ury)"
      "match_point (strip_spaces g) = Some (gx, gy)"
    then have g: "image_grade ?es student_answers a
        = Inr (if (llx \<le> gx \<and> gx \<le> urx) \<and> (lly \<le> gy \<and> gy \<le> ury)
               then ''correct'' else ''incorrect'')"
      by (simp add: image_grade_def)
    have "verdict cm a = Some (if (llx \<le> gx \<and> gx \<le> urx) \<and> (lly \<le> gy \<and> gy \<le> ury)
               then ''correct'' else ''incorrect'')"
      using image_loop_verdict [OF cm [unfolded ImageResponse_get_score_def], of a] a g
      by simp
    then show "(verdict cm a = Some ''correct'')
                     = (llx \<le> gx \<and> gx \<le> urx \<and> lly \<le> gy \<and> gy \<le> ury)
                  \<and> (verdict cm a = Some ''incorrect'')
                     = (\<not> (llx \<le> gx \<and> gx \<le> urx \<and> lly \<le> gy \<and> gy \<le> ury))"
      by simp
  qed
  with cm show ?thesis by blast
qed



lemma match_rectangle_example:
  "match_rectangle (strip_spaces ''(10,10)-(20,30)'') = Some (10, 10, 20, 30)"
  by code_simp

lemma match_point_example:
  "match_point (strip_spaces ''[20,30]'') = Some (20, 30)"
  "match_point (strip_spaces ''[21, 30]'') = Some (21, 30)"
  by code_simp+

theorem ImageResponse_rectangle_inclusive_witness:
  "(\<exists>cm. ImageResponse_get_score
           \<lparr>ielements = [\<lparr>ie_id = ''1_2_1'', ie_rectangle = Some ''(10,10)-(20,30)''\<rparr>]\<rparr>
           [(''1_2_1'', PyStr ''[20,30]'')] = Inr cm
        \<and> verdict cm ''1_2_1'' = Some ''correct'')
   \<and> (\<exists>cm. ImageResponse_get_score
           \<lparr>ielements = [\<lparr>ie_id = ''1_2_1'', ie_rectangle = Some ''(10,10)-(20,30)''\<rparr>]\<rparr>
           [(''1_2_1'', PyStr ''[21, 30]'')] = Inr cm
        \<and> verdict cm ''1_2_1'' = Some ''incorrect'')"
proof -
  let ?r = "\<lparr>ielements = [\<lparr>ie_id = ''1_2_1'', ie_rectangle = Some ''(10,10)-(20,30)''\<rparr>]\<rparr>"
  have ids: "image_answer_ids ?r = [''1_2_1'']"
    by (simp add: image_answer_ids_def)
  have es: "ImageResponse_get_answers ?r ''1_2_1'' = Some (Some ''(10,10)-(20,30)'')"
    by (simp add: ImageResponse_get_answers_def)
  have h1: "\<forall>a\<in>set (image_answer_ids ?r). \<exists>rect g.
             ImageResponse_get_answers ?r a = Some (Some rect)
             \<and> map_of [(''1_2_1'', PyStr ''[20,30]'')] a = Some (PyStr g)
             \<and> match_rectangle (strip_spaces rect) \<noteq> None
             \<and> match_point (strip_spaces g) \<noteq> None"
    using es by (simp add: ids match_rectangle_example match_point_example)
  have h2: "\<forall>a\<in>set (image_answer_ids ?r). \<exists>rect g.
             ImageResponse_get_answers ?r a = Some (Some rect)
             \<and> map_of [(''1_2_1'', PyStr ''[21, 30]'')] a = Some (PyStr g)
             \<and> match_rectangle (strip_spaces rect) \<noteq> None
             \<and> match_point (strip_spaces g) \<noteq> None"
    using es by (simp add: ids match_rectangle_example match_point_example)
  have a: "\<exists>cm. ImageResponse_get_score ?r [(''1_2_1'', PyStr ''[20,30]'')] = Inr cm
        \<and> verdict cm ''1_2_1'' = Some ''correct''"
    using ImageResponse_rectangle_inclusive [OF h1] es
    by (simp add: ids match_rectangle_example match_point_example) blast
  have b: "\<exists>cm. ImageResponse_get_score ?r [(''1_2_1'', PyStr ''[21, 30]'')] = Inr cm
        \<and> verdict cm ''1_2_1'' = Some ''incorrect''"
    using ImageResponse_rectangle_inclusive [OF h2] es
    by (simp add: ids match_rectangle_example match_point_example) blast
  from a b show ?thesis by blast
qed

lemma index_Cons: "index (x # xs) y = (if x = y then 0 else Suc (index xs y))"
  by (simp add: index_def)

lemma sort_two: "sort [''1_2_1'', ''1_2_2''] = [''1_2_1'', ''1_2_2'']"
  by code_simp

lemma score_loop_two_ids:
  "score_loop [''1_2_1'', ''1_2_2''] (award_correct ad)
     \<lparr>awarddetail = Some ad, message = Some (Some m)\<rparr> [''1_2_1'', ''1_2_2''] Map.empty
   = Inl IndexError"
  by (simp add: index_Cons award_correct_def Let_def split: option.split)

text \<open>
  C2. The claim: whatever the award-detail code of the grader's answer, every answer id
  of the response gets a verdict (\<^verbatim>\<open>correct\<close> unless the code is \<^verbatim>\<open>WRONG_FORMAT\<close>).
  The code keeps a one-element list of verdicts and indexes it with the position of the
  answer id, so a response with two answer ids ends in an \<^verbatim>\<open>IndexError\<close> at the second
  id, in \<^verbatim>\<open>CodeResponse.update_score\<close> and in \<^verbatim>\<open>ExternalResponse.get_score\<close> alike.
\<close>

theorem external_grader_second_id_IndexError:
  "fst (CodeResponse_update_score
          (\<lambda>s. Inr \<lparr>awarddetail = Some (Some ''EXACT_ANS''), message = Some (Some ''ok'')\<rparr>)
          \<lparr>code_answer_ids = [''1_2_1'', ''1_2_2'']\<rparr> Map.empty ''<r/>'')
     = Inl IndexError
   \<and> fst (ExternalResponse_get_score
          (\<lambda>s. Inr \<lparr>awarddetail = Some (Some ''EXACT_ANS''), message = Some (Some ''ok'')\<rparr>)
          \<lparr>ext_answer_ids = [''1_2_1'', ''1_2_2''], ext_debug = False\<rparr> Map.empty
          [(''1_2_1'', PyStr ''x''), (''1_2_2'', PyStr ''y'')])
     = Inl IndexError"
  by (simp add: CodeResponse_update_score_def ExternalResponse_get_score_def score_from_xml_def
        sort_two Let_def index_Cons award_correct_def admap_def)

lemma score_from_xml_single:
  assumes "message rxml = Some (Some m)" and "awarddetail rxml = Some ad"
  shows "fst (score_from_xml [aid] ctx rxml)
         = Inr (CorrectMap aid
                  (if ad = Some ''EXACT_ANS'' then ''correct''
                   else if ad = Some ''WRONG_FORMAT'' then ''incorrect'' else ''correct'')
                  (Some (replace ''&nbsp;'' ''&#160;'' m)))"
  using assms
  by (auto simp: score_from_xml_def index_Cons award_correct_def admap_def CorrectMap_def Let_def
           split: option.splits)

lemma update_score_single:
  assumes "fromstring score_msg = Inr rxml" and "message rxml = Some (Some m)"
    and "awarddetail rxml = Some ad"
  shows "fst (CodeResponse_update_score fromstring \<lparr>code_answer_ids = [aid]\<rparr> ctx score_msg)
         = Inr (CorrectMap aid
                  (if ad = Some ''WRONG_FORMAT'' then ''incorrect'' else ''correct'')
                  (Some (replace ''&nbsp;'' ''&#160;'' m)))"
  using assms score_from_xml_single [of rxml m ad aid ctx]
  by (auto simp: CodeResponse_update_score_def)

lemma get_score_external_single:
  assumes "map_of student_answers aid = Some v"
    and "do_external_request [v] = Inr rxml" and "message rxml = Some (Some m)"
    and "awarddetail rxml = Some ad"
  shows "fst (ExternalResponse_get_score do_external_request
                \<lparr>ext_answer_ids = [aid], ext_debug = dbg\<rparr> ctx student_answers)
         = Inr (CorrectMap aid
                  (if ad = Some ''WRONG_FORMAT'' then ''incorrect'' else ''correct'')
                  (Some (replace ''&nbsp;'' ''&#160;'' m)))"
  using assms score_from_xml_single [of rxml m ad aid "ctx(''submission'' \<mapsto> PyList [v])"]
  by (auto simp: ExternalResponse_get_score_def Let_def)

text \<open>With two or more distinct answer ids \<^verbatim>\<open>update_score\<close> always raises.\<close>

lemma length_award_correct: "length (award_correct ad) = 1"
  by (simp add: award_correct_def split: option.splits)

lemma score_loop_second_id:
  assumes "k0 \<noteq> k1"
  shows "\<exists>e. score_loop (k0 # k1 # ks) (award_correct ad) rxml (k0 # k1 # ks) cmap = Inl e"
  using assms
  by (auto simp: index_Cons Let_def length_award_correct split: option.splits)

lemma sorted_distinct_two:
  assumes "distinct ids" and "2 \<le> length ids"
  obtains k0 k1 ks where "sort ids = k0 # k1 # ks" and "k0 \<noteq> k1"
proof -
  have d: "distinct (sort ids)" using assms(1) by simp
  have l: "2 \<le> length (sort ids)" using assms(2) by simp
  then obtain k0 k1 ks where s: "sort ids = k0 # k1 # ks"
    by (cases "sort ids"; cases "tl (sort ids)") auto
  with d have "k0 \<noteq> k1" by auto
  with s that show thesis by blast
qed

lemma update_score_several_ids_raises:
  assumes "distinct (code_answer_ids r)" and "2 \<le> length (code_answer_ids r)"
    and "fromstring score_msg = Inr rxml"
  shows "\<exists>e. fst (CodeResponse_update_score fromstring r ctx score_msg) = Inl e"
proof -
  from sorted_distinct_two [OF assms(1,2)] obtain k0 k1 ks where
    s: "sort (code_answer_ids r) = k0 # k1 # ks" and ne: "k0 \<noteq> k1" by blast
  show ?thesis
    using score_loop_second_id [OF ne, of ks _ rxml Map.empty] assms(3) s
    by (auto simp: CodeResponse_update_score_def score_from_xml_def Let_def split: option.splits)
qed

lemma hint_loop_no_match:
  "filter (\<lambda>hp. hp_on hp \<in> set hs) hps = [] \<Longrightarrow> hint_loop ids (Some hs) mode hps cm = Inr cm"
  by (induction hps arbitrary: cm) (auto split: if_splits)

lemma hint_loop_frame:
  "hint_loop ids hso mode hps cm = Inr cm' \<Longrightarrow> cm' aid \<noteq> cm aid \<Longrightarrow>
   ids \<noteq> [] \<and> aid = last ids"
proof (induction hps arbitrary: cm)
  case Nil
  then show ?case by simp
next
  case (Cons hp hps)
  from Cons.prems obtain hs where hs: "hso = Some hs"
    by (cases hso) auto
  show ?case
  proof (cases "hp_on hp \<in> set hs")
    case False
    with Cons hs show ?thesis by simp
  next
    case True
    with Cons.prems hs obtain t where t: "hp_text hp = Some t" and ne: "ids \<noteq> []"
      and rest: "hint_loop ids hso mode hps (set_hint_and_mode cm (last ids) t mode) = Inr cm'"
      by (auto split: option.splits if_splits)
    show ?thesis
    proof (cases "aid = last ids")
      case True
      with ne show ?thesis by simp
    next
      case False
      then have "set_hint_and_mode cm (last ids) t mode aid = cm aid"
        by (simp add: set_hint_and_mode_def)
      with Cons.IH [OF rest] Cons.prems(2) show ?thesis by auto
    qed
  qed
qed

lemma hint_loop_last_wins:
  "hint_loop ids (Some hs) mode hps cm = Inr cm' \<Longrightarrow>
   filter (\<lambda>hp. hp_on hp \<in> set hs) hps \<noteq> [] \<Longrightarrow>
   \<exists>e. cm' (last ids) = Some e
       \<and> hp_text (last (filter (\<lambda>hp. hp_on hp \<in> set hs) hps)) = Some (hint e)
       \<and> hintmode e = Some mode"
proof (induction hps arbitrary: cm)
  case Nil
  then show ?case by simp
next
  case (Cons hp hps)
  let ?m = "filter (\<lambda>hp. hp_on hp \<in> set hs) hps"
  show ?case
  proof (cases "hp_on hp \<in> set hs")
    case False
    with Cons show ?thesis by simp
  next
    case True
    with Cons.prems obtain t where t: "hp_text hp = Some t" and ne: "ids \<noteq> []"
      and rest: "hint_loop ids (Some hs) mode hps (set_hint_and_mode cm (last ids) t mode) = Inr cm'"
      by (auto split: option.splits if_splits)
    show ?thesis
    proof (cases "?m = []")
      case True
      then have "cm' = set_hint_and_mode cm (last ids) t mode"
        using rest hint_loop_no_match [of hs hps ids mode] by simp
      with True t \<open>hp_on hp \<in> set hs\<close> show ?thesis
        by (simp add: set_hint_and_mode_def)
    next
      case False
      with Cons.IH [OF rest] \<open>hp_on hp \<in> set hs\<close> show ?thesis by simp
    qed
  qed
qed

lemma hint_loop_returns:
  "ids \<noteq> [] \<Longrightarrow> \<forall>hp\<in>set hps. hp_on hp \<in> set hs \<longrightarrow> hp_text hp \<noteq> None \<Longrightarrow>
   \<exists>cm'. hint_loop ids (Some hs) mode hps cm = Inr cm'"
  by (induction hps arbitrary: cm) auto

text \<open>
  C8. Hints by condition (no hint function declared). Whenever \<^verbatim>\<open>get_hints\<close> returns,
  the only answer id whose entry it changed is the last one of the response's answer
  ids, so that when no entry carried a hint before, at most that one does afterwards;
  and when several hint parts match, the hint stored is the text of the last matching
  hint part in document order, with the display mode of the hint group. It does return
  when the conditions were checked, the response has an answer id and every matching
  hint part has a text.
\<close>

theorem get_hints_last_answer_id:
  assumes hg: "rsp_hintgroup r = Some hg"
    and nofn: "hg_hintfn hg = None \<or> hg_hintfn hg = Some []"
  shows "(\<forall>cm'. get_hints check_hint_condition call r student_answers new_cmap old_cmap = Inr cm' \<longrightarrow>
            (\<forall>aid. cm' aid \<noteq> new_cmap aid \<longrightarrow>
                   rsp_answer_ids r \<noteq> [] \<and> aid = last (rsp_answer_ids r))
          \<and> ((\<forall>aid e. new_cmap aid = Some e \<longrightarrow> hint e = None) \<longrightarrow>
               (\<forall>aid e. cm' aid = Some e \<longrightarrow> hint e \<noteq> None \<longrightarrow> aid = last (rsp_answer_ids r)))
          \<and> (\<forall>tag hs. rsp_hint_tag r = Some tag \<longrightarrow>
                 check_hint_condition (filter (\<lambda>h. he_tag h = tag) (hg_hints hg)) student_answers
                   = Inr (Some hs) \<longrightarrow>
                 filter (\<lambda>h. he_tag h = tag) (hg_hints hg) \<noteq> [] \<longrightarrow>
                 filter (\<lambda>hp. hp_on hp \<in> set hs) (hg_hintparts hg) \<noteq> [] \<longrightarrow>
                 (\<exists>e. cm' (last (rsp_answer_ids r)) = Some e
                     \<and> hp_text (last (filter (\<lambda>hp. hp_on hp \<in> set hs) (hg_hintparts hg)))
                         = Some (hint e)
                     \<and> hintmode e = Some (case hg_mode hg of None \<Rightarrow> ''always'' | Some m \<Rightarrow> m))))
       \<and> (\<forall>tag hs. rsp_hint_tag r = Some tag \<longrightarrow>
              check_hint_condition (filter (\<lambda>h. he_tag h = tag) (hg_hints hg)) student_answers
                = Inr (Some hs) \<longrightarrow>
              rsp_answer_ids r \<noteq> [] \<longrightarrow>
              (\<forall>hp\<in>set (hg_hintparts hg). hp_on hp \<in> set hs \<longrightarrow> hp_text hp \<noteq> None) \<longrightarrow>
              (\<exists>cm'. get_hints check_hint_condition call r student_answers new_cmap old_cmap = Inr cm'))"
proof (intro conjI allI impI)
  fix cm' aid
  assume res: "get_hints check_hint_condition call r student_answers new_cmap old_cmap = Inr cm'"
    and ch: "cm' aid \<noteq> new_cmap aid"
  from res hg nofn ch show "rsp_answer_ids r \<noteq> []"
    by (auto simp: get_hints_def Let_def split: option.splits if_splits sum.splits
             dest: hint_loop_frame)
  from res hg nofn ch show "aid = last (rsp_answer_ids r)"
    by (auto simp: get_hints_def Let_def split: option.splits if_splits sum.splits
             dest: hint_loop_frame)
next
  fix cm' aid e
  assume res: "get_hints check_hint_condition call r student_answers new_cmap old_cmap = Inr cm'"
    and nohint: "\<forall>aid e. new_cmap aid = Some e \<longrightarrow> hint e = None"
    and e: "cm' aid = Some e" and h: "hint e \<noteq> None"
  from nohint e h have ch: "cm' aid \<noteq> new_cmap aid" by auto
  from res hg nofn ch show "aid = last (rsp_answer_ids r)"
    by (auto simp: get_hints_def Let_def split: option.splits if_splits sum.splits
             dest: hint_loop_frame)
next
  fix cm' tag hs
  assume res: "get_hints check_hint_condition call r student_answers new_cmap old_cmap = Inr cm'"
    and tag: "rsp_hint_tag r = Some tag"
    and chk: "check_hint_condition (filter (\<lambda>h. he_tag h = tag) (hg_hints hg)) student_answers
                = Inr (Some hs)"
    and ne: "filter (\<lambda>h. he_tag h = tag) (hg_hints hg) \<noteq> []"
    and m: "filter (\<lambda>hp. hp_on hp \<in> set hs) (hg_hintparts hg) \<noteq> []"
  from res hg nofn tag chk ne
  have "hint_loop (rsp_answer_ids r) (Some hs)
          (case hg_mode hg of None \<Rightarrow> ''always'' | Some m \<Rightarrow> m) (hg_hintparts hg) new_cmap = Inr cm'"
    by (auto simp: get_hints_def Let_def)
  from hint_loop_last_wins [OF this m]
  show "\<exists>e. cm' (last (rsp_answer_ids r)) = Some e
           \<and> hp_text (last (filter (\<lambda>hp. hp_on hp \<in> set hs) (hg_hintparts hg))) = Some (hint e)
           \<and> hintmode e = Some (case hg_mode hg of None \<Rightarrow> ''always'' | Some m \<Rightarrow> m)" .
next
  fix tag hs
  assume tag: "rsp_hint_tag r = Some tag"
    and chk: "check_hint_condition (filter (\<lambda>h. he_tag h = tag) (hg_hints hg)) student_answers
                = Inr (Some hs)"
    and ne: "rsp_answer_ids r \<noteq> []"
    and alltext: "\<forall>hp\<in>set (hg_hintparts hg). hp_on hp \<in> set hs \<longrightarrow> hp_text hp \<noteq> None"
  from hint_loop_returns [OF ne alltext]
  show "\<exists>cm'. get_hints check_hint_condition call r student_answers new_cmap old_cmap = Inr cm'"
    using hg nofn tag chk by (auto simp: get_hints_def Let_def)
qed

lemma example_hints_to_show:
  "StringResponse_check_hint_condition example_contextualize example_string_response
     (filter (\<lambda>h. he_tag h = ''stringhint'') (hg_hints example_hintgroup))
     [(''1_2_1'', PyStr ''London'')] = Inr (Some [Some ''h1'', Some ''h2''])"
  unfolding example_hintgroup_def example_string_response_def example_contextualize_def
  by code_simp

theorem get_hints_last_answer_id_witness:
  "\<exists>cm'. get_hints (StringResponse_check_hint_condition example_contextualize example_string_response)
           (\<lambda>f ids sa new old. Inr new) example_response [(''1_2_1'', PyStr ''London'')]
           (CorrectMap ''1_2_1'' ''incorrect'' None) Map.empty = Inr cm'
       \<and> (\<exists>e. cm' ''1_2_1'' = Some e \<and> hint e = Some ''second'' \<and> hintmode e = Some ''always'')"
proof -
  let ?chk = "StringResponse_check_hint_condition example_contextualize example_string_response"
  let ?call = "\<lambda>(f::pyval) (ids::string list) (sa::answers) (new::correct_map) (old::correct_map).
                 (Inr new :: error + correct_map)"
  let ?sa = "[(''1_2_1'', PyStr ''London'')]"
  let ?new = "CorrectMap ''1_2_1'' ''incorrect'' None"
  have hg: "rsp_hintgroup example_response = Some example_hintgroup"
    by (simp add: example_response_def)
  have nofn: "hg_hintfn example_hintgroup = None \<or> hg_hintfn example_hintgroup = Some []"
    by (simp add: example_hintgroup_def)
  have tag: "rsp_hint_tag example_response = Some ''stringhint''"
    by (simp add: example_response_def)
  have ids: "rsp_answer_ids example_response = [''1_2_1'']"
    by (simp add: example_response_def)
  have parts: "hg_hintparts example_hintgroup
      = [\<lparr>hp_on = Some ''h1'', hp_text = Some (Some ''first'')\<rparr>,
         \<lparr>hp_on = Some ''h2'', hp_text = Some (Some ''second'')\<rparr>]"
    by (simp add: example_hintgroup_def)
  have fl: "filter (\<lambda>hp. hp_on hp \<in> set [Some ''h1'', Some ''h2'']) (hg_hintparts example_hintgroup)
      = hg_hintparts example_hintgroup"
    by (simp add: parts)
  have ne: "filter (\<lambda>h. he_tag h = ''stringhint'') (hg_hints example_hintgroup) \<noteq> []"
    by (simp add: example_hintgroup_def)
  note th = get_hints_last_answer_id [OF hg nofn, of ?chk ?call ?sa ?new Map.empty]
  from th have "\<exists>cm'. get_hints ?chk ?call example_response ?sa ?new Map.empty = Inr cm'"
    using tag example_hints_to_show ids parts by simp
  then obtain cm' where res: "get_hints ?chk ?call example_response ?sa ?new Map.empty = Inr cm'"
    by blast
  from th res have "\<forall>tag hs. rsp_hint_tag example_response = Some tag \<longrightarrow>
        ?chk (filter (\<lambda>h. he_tag h = tag) (hg_hints example_hintgroup)) ?sa = Inr (Some hs) \<longrightarrow>
        filter (\<lambda>h. he_tag h = tag) (hg_hints example_hintgroup) \<noteq> [] \<longrightarrow>
        filter (\<lambda>hp. hp_on hp \<in> set hs) (hg_hintparts example_hintgroup) \<noteq> [] \<longrightarrow>
        (\<exists>e. cm' (last (rsp_answer_ids example_response)) = Some e
            \<and> hp_text (last (filter (\<lambda>hp. hp_on hp \<in> set hs) (hg_hintparts example_hintgroup)))
                = Some (hint e)
            \<and> hintmode e = Some (case hg_mode example_hintgroup of None \<Rightarrow> ''always'' | Some m \<Rightarrow> m))"
    by blast
  from this [rule_format, OF tag example_hints_to_show ne]
  have "\<exists>e. cm' ''1_2_1'' = Some e \<and> hint e = Some ''second'' \<and> hintmode e = Some ''always''"
    unfolding fl by (simp add: ids parts example_hintgroup_def) metis
  with res show ?thesis by blast
qed

lemma get_submission_single:
  "map_of student_answers aid = Some v \<Longrightarrow> get_submission student_answers [aid] = Inr [v]"
  by simp

text \<open>
  C10. A custom response with exactly one answer field whose submitted value is empty
  (falsy): \<^verbatim>\<open>get_score\<close> returns \<^verbatim>\<open>incorrect\<close> with the message
  \<^verbatim>\<open>No answer entered!\<close> (in red), and the context it leaves is the context it found.
  The result is the same for every checker, every \<^verbatim>\<open>exec\<close> and every context: the
  checker is not run.
\<close>

theorem CustomResponse_no_answer_entered:
  assumes "cust_answer_ids r = [aid]"
    and "map_of student_answers aid = Some v"
    and "\<not> truthy v"
  shows \<open>CustomResponse_get_score exec_code tostring_bs r ctx student_answers
           = (Inr (CorrectMap aid ''incorrect''
                     (Some ''<font color="red">No answer entered!</font>'')), ctx)\<close>
  using assms by (simp add: CustomResponse_get_score_def)

theorem CustomResponse_no_answer_entered_witness:
  \<open>CustomResponse_get_score (\<lambda>code ctx. (ctx, [''correct''], [''done'']))
      (\<lambda>s. Inr s)
      \<lparr>cust_answer_ids = [''1_2_1''], cust_xml = PyObj 0, cust_myid = PyStr ''1_2'',
        cust_expect = PyNone, cust_options = PyNone,
        cust_code = Fn \<lparr>fn_args = [''expect'', ''ans''], fn_defaults = 0,
                         fn_call = (\<lambda>args kwargs. Inr (PyBool True))\<rparr>,
        cust_debug = PyBool False\<rparr>
      Map.empty [(''1_2_1'', PyStr '''')]
    = (Inr (CorrectMap ''1_2_1'' ''incorrect''
              (Some ''<font color="red">No answer entered!</font>'')), Map.empty)\<close>
  by (rule CustomResponse_no_answer_entered [where v = "PyStr ''''"]) simp_all

lemma build_map_replicate:
  "length ms = length ks \<Longrightarrow>
   \<exists>cm'. build_map ks (replicate (length ks) c) ms cm = Inr cm'
        \<and> (\<forall>a. verdict cm' a = (if a \<in> set ks then Some c else verdict cm a))"
proof (induction ks arbitrary: ms cm)
  case Nil
  then show ?case by simp
next
  case (Cons k ks)
  then obtain m ms' where ms: "ms = m # ms'" and len: "length ms' = length ks"
    by (cases ms) auto
  from Cons.IH [OF len, of "cm_set cm k c (Some m)"] obtain cm' where
    "build_map ks (replicate (length ks) c) ms' (cm_set cm k c (Some m)) = Inr cm'"
    "\<forall>a. verdict cm' a = (if a \<in> set ks then Some c else verdict (cm_set cm k c (Some m)) a)"
    by blast
  then show ?case
    by (auto simp: ms verdict_cm_set)
qed

text \<open>
  C3 (as found). The claim is that a result of the check function that is neither a dict
  with a correctness flag nor a boolean raises an error. It does not: a check function
  that returns the string \<^verbatim>\<open>maybe\<close> marks the answer \<^verbatim>\<open>correct\<close>, and one that
  returns \<^verbatim>\<open>None\<close> marks it \<^verbatim>\<open>incorrect\<close>.
\<close>

theorem CustomResponse_unknown_shape_folded:
  "fst (CustomResponse_get_score (\<lambda>code ctx. (ctx, [], [])) (\<lambda>s. Inr s)
      \<lparr>cust_answer_ids = [''1_2_1''], cust_xml = PyObj 0, cust_myid = PyStr ''1_2'',
        cust_expect = PyNone, cust_options = PyNone,
        cust_code = Fn \<lparr>fn_args = [''expect'', ''ans''], fn_defaults = 0,
                         fn_call = (\<lambda>args kwargs. Inr (PyStr ''maybe''))\<rparr>,
        cust_debug = PyBool False\<rparr>
      Map.empty [(''1_2_1'', PyStr ''42'')])
    = Inr (CorrectMap ''1_2_1'' ''correct'' (Some ''''))
   \<and> fst (CustomResponse_get_score (\<lambda>code ctx. (ctx, [], [])) (\<lambda>s. Inr s)
      \<lparr>cust_answer_ids = [''1_2_1''], cust_xml = PyObj 0, cust_myid = PyStr ''1_2'',
        cust_expect = PyNone, cust_options = PyNone,
        cust_code = Fn \<lparr>fn_args = [''expect'', ''ans''], fn_defaults = 0,
                         fn_call = (\<lambda>args kwargs. Inr PyNone)\<rparr>,
        cust_debug = PyBool False\<rparr>
      Map.empty [(''1_2_1'', PyStr ''42'')])
    = Inr (CorrectMap ''1_2_1'' ''incorrect'' (Some ''''))"
  by (simp add: CustomResponse_get_score_def call_check_function_def read_result_def
        CorrectMap_def Let_def)

text \<open>
  What \<^verbatim>\<open>get_score\<close> returns once the check function has returned \<open>ret\<close>: the
  result of \<open>read_result\<close>, turned into a map.
\<close>

lemma CustomResponse_get_score_after_call:
  assumes code: "cust_code r = Fn f"
    and sub: "get_submission student_answers (sort (cust_answer_ids r)) = Inr submission"
    and filled: "\<not> (length (cust_answer_ids r) = 1 \<and> \<not> truthy (hd submission))"
    and call: "call_check_function r (Fn f)
                 (update_context r ctx student_answers (sort (cust_answer_ids r)) submission
                    (replicate (length (cust_answer_ids r)) ''unknown'')
                    (replicate (length (cust_answer_ids r)) ''''))
                 student_answers (sort (cust_answer_ids r)) submission = Inr ret"
  shows "fst (CustomResponse_get_score exec_code tostring_bs r ctx student_answers)
         = (case read_result tostring_bs (sort (cust_answer_ids r))
                  (replicate (length (cust_answer_ids r)) '''') ret of
              Inl err \<Rightarrow> Inl err
            | Inr (correct2, messages2) \<Rightarrow>
                build_map (sort (cust_answer_ids r)) correct2 messages2 Map.empty)"
proof -
  have nf: "(length (cust_answer_ids r) = 1 \<and> \<not> truthy (hd submission)) = False"
    using filled by simp
  show ?thesis
    using code sub call
    by (simp add: CustomResponse_get_score_def Let_def nf del: One_nat_def split: sum.splits prod.splits)
qed

lemma read_result_verdicts:
  assumes "read_result tostring_bs ids ms ret = Inr (replicate (length ids) c, ms')"
    and "length ms' = length ids"
  shows "\<exists>cm. (case read_result tostring_bs ids ms ret of
                  Inl err \<Rightarrow> Inl err
                | Inr (correct2, messages2) \<Rightarrow> build_map ids correct2 messages2 Map.empty) = Inr cm
              \<and> (\<forall>aid\<in>set ids. verdict cm aid = Some c)"
  using build_map_replicate [OF assms(2), of c Map.empty] assms(1) by auto

text \<open>
  C3 (amended). For a check function that returns a result: a tuple that has not exactly
  one element raises a \<^verbatim>\<open>TypeError\<close> (when the result is logged); a dict without the
  key \<^verbatim>\<open>ok\<close> or without the key \<^verbatim>\<open>msg\<close> raises a \<^verbatim>\<open>KeyError\<close>; a dict with both,
  whose message the clean-up accepts, marks every answer id \<^verbatim>\<open>correct\<close> when its
  \<^verbatim>\<open>ok\<close> is true and \<^verbatim>\<open>incorrect\<close> when it is false; and a result that is
  \<^verbatim>\<open>None\<close>, a boolean, a number, a string, a list or a tuple of one element is not
  rejected but read by its truth value, every answer id being marked \<^verbatim>\<open>correct\<close>
  when it is true and \<^verbatim>\<open>incorrect\<close> when it is false.
\<close>

theorem CustomResponse_result_by_shape:
  assumes code: "cust_code r = Fn f"
    and sub: "get_submission student_answers (sort (cust_answer_ids r)) = Inr submission"
    and filled: "\<not> (length (cust_answer_ids r) = 1 \<and> \<not> truthy (hd submission))"
    and call: "call_check_function r (Fn f)
                 (update_context r ctx student_answers (sort (cust_answer_ids r)) submission
                    (replicate (length (cust_answer_ids r)) ''unknown'')
                    (replicate (length (cust_answer_ids r)) ''''))
                 student_answers (sort (cust_answer_ids r)) submission = Inr ret"
  shows "(\<forall>xs. ret = PyTuple xs \<and> length xs \<noteq> 1 \<longrightarrow>
            fst (CustomResponse_get_score exec_code tostring_bs r ctx student_answers)
              = Inl TypeError)
       \<and> (\<forall>kvs. ret = PyDict kvs \<and> (map_of kvs ''ok'' = None \<or> map_of kvs ''msg'' = None) \<longrightarrow>
            fst (CustomResponse_get_score exec_code tostring_bs r ctx student_answers)
              = Inl KeyError)
       \<and> (\<forall>kvs ok m m'. ret = PyDict kvs \<and> dict_get kvs ''ok'' = Inr ok
              \<and> dict_get kvs ''msg'' = Inr m \<and> clean_msg tostring_bs m = Inr m' \<longrightarrow>
            (\<exists>cm. fst (CustomResponse_get_score exec_code tostring_bs r ctx student_answers) = Inr cm
                 \<and> (\<forall>aid\<in>set (cust_answer_ids r).
                       verdict cm aid = Some (if truthy ok then ''correct'' else ''incorrect''))))
       \<and> ((ret = PyNone \<or> (\<exists>b. ret = PyBool b) \<or> (\<exists>n. ret = PyNum n) \<or> (\<exists>s. ret = PyStr s)
            \<or> (\<exists>xs. ret = PyList xs) \<or> (\<exists>x. ret = PyTuple [x])) \<longrightarrow>
            (\<exists>cm. fst (CustomResponse_get_score exec_code tostring_bs r ctx student_answers) = Inr cm
                 \<and> (\<forall>aid\<in>set (cust_answer_ids r).
                       verdict cm aid = Some (if truthy ret then ''correct'' else ''incorrect''))))"
proof (intro conjI allI impI)
  let ?ids = "sort (cust_answer_ids r)"
  let ?n = "length (cust_answer_ids r)"
  let ?ms = "replicate ?n ([]::string)"
  let ?res = "fst (CustomResponse_get_score exec_code tostring_bs r ctx student_answers)"
  note after = CustomResponse_get_score_after_call [OF code sub filled call, of exec_code tostring_bs]
  have ids: "cust_answer_ids r \<noteq> []"
    using call by (auto simp: call_check_function_def split: if_splits)
  {
    fix xs
    assume "ret = PyTuple xs \<and> length xs \<noteq> 1"
    then have "read_result tostring_bs ?ids ?ms ret = Inl TypeError"
      by (simp add: read_result_def)
    then show "?res = Inl TypeError"
      by (simp add: after)
  next
    fix kvs
    assume d: "ret = PyDict kvs \<and> (map_of kvs ''ok'' = None \<or> map_of kvs ''msg'' = None)"
    then have "map_of (rev kvs) ''ok'' = None \<or> map_of (rev kvs) ''msg'' = None"
      by (auto simp: map_of_eq_None_iff)
    then have "read_result tostring_bs ?ids ?ms ret = Inl KeyError"
      using d by (auto simp: read_result_def dict_get_def Let_def split: option.splits)
    then show "?res = Inl KeyError"
      by (simp add: after)
  next
    fix kvs ok m m'
    assume d: "ret = PyDict kvs \<and> dict_get kvs ''ok'' = Inr ok
              \<and> dict_get kvs ''msg'' = Inr m \<and> clean_msg tostring_bs m = Inr m'"
    let ?c = "if truthy ok then ''correct'' else ''incorrect''"
    have ne: "?ms \<noteq> []" using ids by simp
    have rr: "read_result tostring_bs ?ids ?ms ret = Inr (replicate (length ?ids) ?c, ?ms[0 := m'])"
      using d ne by (simp add: read_result_def Let_def)
    have "length (?ms[0 := m']) = length ?ids" by simp
    from read_result_verdicts [OF rr this]
    show "\<exists>cm. ?res = Inr cm \<and> (\<forall>aid\<in>set (cust_answer_ids r). verdict cm aid = Some ?c)"
      by (simp add: after)
  next
    assume s: "ret = PyNone \<or> (\<exists>b. ret = PyBool b) \<or> (\<exists>n. ret = PyNum n) \<or> (\<exists>s. ret = PyStr s)
            \<or> (\<exists>xs. ret = PyList xs) \<or> (\<exists>x. ret = PyTuple [x])"
    let ?c = "if truthy ret then ''correct'' else ''incorrect''"
    have rr: "read_result tostring_bs ?ids ?ms ret = Inr (replicate (length ?ids) ?c, ?ms)"
      using s by (auto simp: read_result_def)
    have "length ?ms = length ?ids" by simp
    from read_result_verdicts [OF rr this]
    show "\<exists>cm. ?res = Inr cm \<and> (\<forall>aid\<in>set (cust_answer_ids r). verdict cm aid = Some ?c)"
      by (simp add: after)
  }
qed

theorem CustomResponse_result_by_shape_witness:
  "fst (CustomResponse_get_score (\<lambda>code ctx. (ctx, [], [])) (\<lambda>s. Inr s)
          (example_custom (PyTuple [PyBool False, PyStr ''wrong''])) Map.empty
          [(''1_2_1'', PyStr ''a''), (''1_2_2'', PyStr ''b'')]) = Inl TypeError
   \<and> fst (CustomResponse_get_score (\<lambda>code ctx. (ctx, [], [])) (\<lambda>s. Inr s)
          (example_custom (PyDict [(''msg'', PyStr ''no flag'')])) Map.empty
          [(''1_2_1'', PyStr ''a''), (''1_2_2'', PyStr ''b'')]) = Inl KeyError
   \<and> (\<exists>cm. fst (CustomResponse_get_score (\<lambda>code ctx. (ctx, [], [])) (\<lambda>s. Inr s)
               (example_custom (PyDict [(''ok'', PyBool True), (''msg'', PyStr ''fine'')])) Map.empty
               [(''1_2_1'', PyStr ''a''), (''1_2_2'', PyStr ''b'')]) = Inr cm
        \<and> verdict cm ''1_2_1'' = Some ''correct''
        \<and> verdict cm ''1_2_2'' = Some ''correct'')
   \<and> (\<exists>cm. fst (CustomResponse_get_score (\<lambda>code ctx. (ctx, [], [])) (\<lambda>s. Inr s)
               (example_custom (PyList [])) Map.empty
               [(''1_2_1'', PyStr ''a''), (''1_2_2'', PyStr ''b'')]) = Inr cm
        \<and> verdict cm ''1_2_1'' = Some ''incorrect''
        \<and> verdict cm ''1_2_2'' = Some ''incorrect'')"
proof -
  let ?sa = "[(''1_2_1'', PyStr ''a''), (''1_2_2'', PyStr ''b'')]"
  let ?f = "\<lambda>ret. \<lparr>fn_args = [''expect'', ''ans'', ''options''], fn_defaults = 1,
                    fn_call = (\<lambda>(args::pyval list) (kwargs::(string \<times> pyval) list).
                                 (Inr ret :: error + pyval))\<rparr>"
  have code: "cust_code (example_custom ret) = Fn (?f ret)" for ret
    by (simp add: example_custom_def)
  have ids: "cust_answer_ids (example_custom ret) = [''1_2_1'', ''1_2_2'']" for ret
    by (simp add: example_custom_def)
  have sub: "get_submission ?sa (sort (cust_answer_ids (example_custom ret)))
               = Inr [PyStr ''a'', PyStr ''b'']" for ret
    by (simp add: ids sort_two)
  have filled: "\<not> (length (cust_answer_ids (example_custom ret)) = 1
                   \<and> \<not> truthy (hd [PyStr ''a'', PyStr ''b'']))" for ret
    by (simp add: ids)
  have call: "call_check_function (example_custom ret) (Fn (?f ret))
                 (update_context (example_custom ret) Map.empty ?sa
                    (sort (cust_answer_ids (example_custom ret))) [PyStr ''a'', PyStr ''b'']
                    (replicate (length (cust_answer_ids (example_custom ret))) ''unknown'')
                    (replicate (length (cust_answer_ids (example_custom ret))) ''''))
                 ?sa (sort (cust_answer_ids (example_custom ret))) [PyStr ''a'', PyStr ''b'']
               = Inr ret" for ret
    by (simp add: call_check_function_def ids sort_two Let_def)
  note th = CustomResponse_result_by_shape [OF code sub filled call,
              where exec_code = "\<lambda>code ctx. (ctx, [], [])" and tostring_bs = "\<lambda>s. Inr s"]
  have a: "fst (CustomResponse_get_score (\<lambda>code ctx. (ctx, [], [])) (\<lambda>s. Inr s)
               (example_custom (PyTuple [PyBool False, PyStr ''wrong''])) Map.empty ?sa)
             = Inl TypeError"
    using th [of "PyTuple [PyBool False, PyStr ''wrong'']"] by simp
  have b: "fst (CustomResponse_get_score (\<lambda>code ctx. (ctx, [], [])) (\<lambda>s. Inr s)
               (example_custom (PyDict [(''msg'', PyStr ''no flag'')])) Map.empty ?sa)
             = Inl KeyError"
    using th [of "PyDict [(''msg'', PyStr ''no flag'')]"] by simp
  have ok: "dict_get [(''ok'', PyBool True), (''msg'', PyStr ''fine'')] ''ok'' = Inr (PyBool True)"
    and m: "dict_get [(''ok'', PyBool True), (''msg'', PyStr ''fine'')] ''msg'' = Inr (PyStr ''fine'')"
    by (simp_all add: dict_get_def)
  obtain m' where m': "clean_msg (\<lambda>s. Inr s) (PyStr ''fine'') = Inr m'"
    by (simp add: clean_msg_def)
  have c: "\<exists>cm. fst (CustomResponse_get_score (\<lambda>code ctx. (ctx, [], [])) (\<lambda>s. Inr s)
               (example_custom (PyDict [(''ok'', PyBool True), (''msg'', PyStr ''fine'')])) Map.empty ?sa)
             = Inr cm
        \<and> verdict cm ''1_2_1'' = Some ''correct''
        \<and> verdict cm ''1_2_2'' = Some ''correct''"
  proof -
    from th [of "PyDict [(''ok'', PyBool True), (''msg'', PyStr ''fine'')]"]
    have "\<forall>kvs ok m m'. PyDict [(''ok'', PyBool True), (''msg'', PyStr ''fine'')] = PyDict kvs
              \<and> dict_get kvs ''ok'' = Inr ok
              \<and> dict_get kvs ''msg'' = Inr m \<and> clean_msg (\<lambda>s. Inr s) m = Inr m' \<longrightarrow>
            (\<exists>cm. fst (CustomResponse_get_score (\<lambda>code ctx. (ctx, [], [])) (\<lambda>s. Inr s)
                         (example_custom (PyDict [(''ok'', PyBool True), (''msg'', PyStr ''fine'')]))
                         Map.empty ?sa) = Inr cm
                 \<and> (\<forall>aid\<in>set (cust_answer_ids
                                   (example_custom (PyDict [(''ok'', PyBool True), (''msg'', PyStr ''fine'')]))).
                       verdict cm aid = Some (if truthy ok then ''correct'' else ''incorrect'')))"
      by blast
    from this [rule_format, of "[(''ok'', PyBool True), (''msg'', PyStr ''fine'')]"
                 "PyBool True" "PyStr ''fine''" m'] ok m m'
    show ?thesis by (simp add: ids)
  qed
  have d: "\<exists>cm. fst (CustomResponse_get_score (\<lambda>code ctx. (ctx, [], [])) (\<lambda>s. Inr s)
               (example_custom (PyList [])) Map.empty ?sa) = Inr cm
        \<and> verdict cm ''1_2_1'' = Some ''incorrect''
        \<and> verdict cm ''1_2_2'' = Some ''incorrect''"
    using th [of "PyList []"] by (simp add: ids)
  from a b c d show ?thesis by blast
qed

lemma trial_True_iff:
  "trial evaluator compare r expected given vals = Inr True
     \<longleftrightarrow> trial_passes evaluator compare r expected given (Inr vals)"
  by (auto simp: trial_def trial_passes_def split: sum.splits error.splits)



text \<open>What the loop returns when trial \<open>i\<close> is the first one that does not pass.\<close>

lemma check_loop_first_not_passing:
  assumes "i < n"
    and "\<forall>j<i. trial_passes evaluator compare r expected given (trial_values uniform ranges g j)"
    and "\<not> trial_passes evaluator compare r expected given (trial_values uniform ranges g i)"
  shows "fst (check_loop evaluator compare uniform r expected given ranges n g)
         = (case trial_values uniform ranges g i of
              Inl e \<Rightarrow> Inl e
            | Inr vals \<Rightarrow>
                (case trial evaluator compare r expected given vals of
                   Inl e \<Rightarrow> Inl e
                 | Inr b \<Rightarrow> Inr ''incorrect''))"
  using assms
proof (induction n arbitrary: g i)
  case 0
  then show ?case by simp
next
  case (Suc n)
  obtain d g1 where d: "draw uniform ranges g = (d, g1)"
    by (cases "draw uniform ranges g")
  show ?case
  proof (cases i)
    case 0
    show ?thesis
    proof (cases d)
      case (Inl e)
      with d 0 show ?thesis by simp
    next
      case (Inr vals)
      with Suc.prems(3) d 0 have "trial evaluator compare r expected given vals \<noteq> Inr True"
        using trial_True_iff [of evaluator compare r expected given vals] by simp
      with d 0 Inr show ?thesis
        by (auto split: sum.splits bool.splits)
    qed
  next
    case (Suc i')
    with Suc.prems(2) have p0: "trial_passes evaluator compare r expected given (fst (draw uniform ranges g))"
      by (metis trial_values.simps(1) zero_less_Suc)
    then obtain vals where vals: "d = Inr vals"
      and t: "trial evaluator compare r expected given vals = Inr True"
      using d trial_True_iff [of evaluator compare r expected given]
      by (cases d) (auto simp: trial_passes_def)
    have a: "i' < n" using Suc Suc.prems(1) by simp
    have b: "\<forall>j<i'. trial_passes evaluator compare r expected given (trial_values uniform ranges g1 j)"
    proof (intro allI impI)
      fix j assume "j < i'"
      then have "Suc j < i" using Suc by simp
      with Suc.prems(2) show "trial_passes evaluator compare r expected given (trial_values uniform ranges g1 j)"
        using d by fastforce
    qed
    have c: "\<not> trial_passes evaluator compare r expected given (trial_values uniform ranges g1 i')"
      using Suc.prems(3) Suc d by simp
    from Suc.IH [OF a b c] d vals t Suc show ?thesis by simp
  qed
qed

lemma example_parse:
  "parse_samples example_int example_float ''x@0:1#2'' = Inr (2, [(''x'', [0, 1])])"
  by (simp add: parse_samples_def example_int_def example_float_def isdigit_def
        int_of_digits_def zip_star_def dict_of_def)

lemma example_draw0: "draw example_uniform [(''x'', [0, 1])] 0 = (Inr [(''x'', Fin 0)], Suc 0)"
  by (simp add: example_uniform_def)

lemma example_draw1: "draw example_uniform [(''x'', [0, 1])] (Suc 0) = (Inr [(''x'', Fin (1 / 2))], Suc (Suc 0))"
  by (simp add: example_uniform_def)

lemma example_values:
  "trial_values example_uniform [(''x'', [0, 1])] 0 0 = Inr [(''x'', Fin 0)]"
  "trial_values example_uniform [(''x'', [0, 1])] 0 (Suc 0) = Inr [(''x'', Fin (1 / 2))]"
  by (simp_all add: example_uniform_def)

lemma example_check_loop_unfold:
  "check_loop evaluator compare uniform r expected given ranges 2 g
   = check_loop evaluator compare uniform r expected given ranges (Suc (Suc 0)) g"
  by (simp add: numeral_2_eq_2)




text \<open>
  C4 (as found). The claim: an undefined-variable error of either evaluation becomes a
  \<^verbatim>\<open>StudentInputError\<close>. The evaluation of the expected expression is outside the
  \<^verbatim>\<open>try\<close>: its \<^verbatim>\<open>UndefinedVariable\<close> leaves \<^verbatim>\<open>check_formula\<close> as it is.
\<close>

theorem check_formula_instructor_error_not_converted:
  "example_evaluator (instructor_variables example_formula [(''x'', Fin 0)]) ''y'' False
     = Inl (UndefinedVariable ''y'')
   \<and> fst (check_formula example_int example_float example_evaluator example_compare
            example_uniform example_formula ''y'' ''x'' ''x@0:1#2'' 0)
       = Inl (UndefinedVariable ''y'')"
  by (simp add: check_formula_def example_parse example_check_loop_unfold example_uniform_def
        trial_def instructor_variables_def student_variables_def
        example_evaluator_def example_formula_def strip_dict_def map_add_def)

text \<open>
  C4 (amended). On a trial before which every trial passed: when the expected expression
  evaluates and the evaluation of the student's expression fails with an undefined
  variable, \<^verbatim>\<open>check_formula\<close> raises a \<^verbatim>\<open>StudentInputError\<close> (the variable's message
  followed by \<^verbatim>\<open>not permitted in answer\<close>); when the evaluation of the expected
  expression fails, its error is raised unchanged.
\<close>

theorem check_formula_undefined_variable:
  assumes parse: "parse_samples py_int py_float samples = Inr (numsamples, ranges)"
    and i: "i < nat numsamples"
    and before: "\<forall>j<i. trial_passes evaluator compare r expected given (trial_values uniform ranges g j)"
    and vals: "trial_values uniform ranges g i = Inr vals"
  shows "(\<forall>t m. evaluator (instructor_variables r vals) expected (frm_case_sensitive r) = Inr t
              \<and> evaluator (student_variables vals) given (frm_case_sensitive r)
                  = Inl (UndefinedVariable m)
            \<longrightarrow> fst (check_formula py_int py_float evaluator compare uniform r expected given samples g)
                  = Inl (StudentInputError (m @ '' not permitted in answer'')))
       \<and> (\<forall>e. evaluator (instructor_variables r vals) expected (frm_case_sensitive r) = Inl e
            \<longrightarrow> fst (check_formula py_int py_float evaluator compare uniform r expected given samples g)
                  = Inl e)"
proof (intro conjI allI impI)
  let ?res = "fst (check_formula py_int py_float evaluator compare uniform r expected given samples g)"
  have res: "?res = fst (check_loop evaluator compare uniform r expected given ranges (nat numsamples) g)"
    using parse by (simp add: check_formula_def)
  have first: "?res = (case trial evaluator compare r expected given vals of
                         Inl e \<Rightarrow> Inl e | Inr b \<Rightarrow> Inr ''incorrect'')"
    if "\<not> trial_passes evaluator compare r expected given (Inr vals)"
    using check_loop_first_not_passing [OF i before] that vals by (simp add: res)
  {
    fix t m
    assume a: "evaluator (instructor_variables r vals) expected (frm_case_sensitive r) = Inr t
              \<and> evaluator (student_variables vals) given (frm_case_sensitive r)
                  = Inl (UndefinedVariable m)"
    then have "\<not> trial_passes evaluator compare r expected given (Inr vals)"
      by (simp add: trial_passes_def)
    from first [OF this] a show "?res = Inl (StudentInputError (m @ '' not permitted in answer''))"
      by (simp add: trial_def)
  next
    fix e
    assume a: "evaluator (instructor_variables r vals) expected (frm_case_sensitive r) = Inl e"
    then have "\<not> trial_passes evaluator compare r expected given (Inr vals)"
      by (simp add: trial_passes_def)
    from first [OF this] a show "?res = Inl e"
      by (simp add: trial_def)
  }
qed

theorem check_formula_undefined_variable_witness:
  "fst (check_formula example_int example_float example_evaluator example_compare
          example_uniform example_formula ''2*x'' ''y'' ''x@0:1#2'' 0)
     = Inl (StudentInputError ''y not permitted in answer'')
   \<and> fst (check_formula example_int example_float example_evaluator example_compare
          example_uniform example_formula ''z'' ''x'' ''x@0:1#2'' 0)
     = Inl (UndefinedVariable ''z'')"
proof -
  have i: "0 < nat 2" by simp
  have vals: "trial_values example_uniform [(''x'', [0, 1])] 0 0 = Inr [(''x'', Fin 0)]"
    by (rule example_values(1))
  have before: "\<forall>j<0. trial_passes example_evaluator example_compare example_formula expected given
                  (trial_values example_uniform [(''x'', [0, 1])] 0 j)" for expected given
    by simp
  have s: "example_evaluator (instructor_variables example_formula [(''x'', Fin 0)]) ''2*x''
             (frm_case_sensitive example_formula) = Inr (Fin 0)
           \<and> example_evaluator (student_variables [(''x'', Fin 0)]) ''y''
               (frm_case_sensitive example_formula) = Inl (UndefinedVariable ''y'')"
    by (simp add: instructor_variables_def student_variables_def example_evaluator_def
          example_formula_def strip_dict_def map_add_def)
  have t: "example_evaluator (instructor_variables example_formula [(''x'', Fin 0)]) ''z''
             (frm_case_sensitive example_formula) = Inl (UndefinedVariable ''z'')"
    by (simp add: instructor_variables_def example_evaluator_def
          example_formula_def strip_dict_def map_add_def)
  from check_formula_undefined_variable
         [where evaluator = example_evaluator and compare = example_compare
            and r = example_formula and expected = "''2*x''" and given = "''y''",
          OF example_parse i before vals] s
  have a: "fst (check_formula example_int example_float example_evaluator example_compare
          example_uniform example_formula ''2*x'' ''y'' ''x@0:1#2'' 0)
     = Inl (StudentInputError (''y'' @ '' not permitted in answer''))"
    by blast
  from check_formula_undefined_variable
         [where evaluator = example_evaluator and compare = example_compare
            and r = example_formula and expected = "''z''" and given = "''x''",
          OF example_parse i before vals] t
  have b: "fst (check_formula example_int example_float example_evaluator example_compare
          example_uniform example_formula ''z'' ''x'' ''x@0:1#2'' 0)
     = Inl (UndefinedVariable ''z'')"
    by blast
  from a b show ?thesis by simp
qed

end
